theory Spec2Isabelle
  imports Main "HOL-Library.Sublist"
begin

section \<open>Canonical model (package types)\<close>

text \<open>
  Go's \<open>any\<close>, restricted to the dynamic types the adapters test for with a type
  assertion. \<open>float64\<close> values stay abstract (the type parameter \<open>'f\<close>); a nested
  \<open>map[string]any\<close> is a partial function, \<open>[]string\<close> and \<open>[]any\<close> are lists.
\<close>

datatype 'f any =
    ANil
  | ABool bool
  | AFloat64 'f
  | AInt int
  | AString string
  | AStrings "string list"
  | ASlice "'f any list"
  | AMap "string \<Rightarrow> 'f any option"

text \<open>
  A Go map is a reference: copying a \<open>ToolUseBlock\<close> copies the reference, and
  \<open>delete\<close> through one copy is seen through every other. The input maps of tool-use
  blocks therefore live in a store, and a block holds an address (\<open>None\<close> is the nil map).
\<close>

type_synonym addr = nat
type_synonym 'f heap = "addr \<Rightarrow> (string \<Rightarrow> 'f any option)"

text \<open>
  Modelled from the spec: the media source structs of package types are not among the
  sources; one record carries the fields the Gemini adapter reads from them.
\<close>

record Source =
  src_Type :: string
  src_MediaType :: string
  src_Data :: string
  src_URL :: string

text \<open>
  The content blocks the adapter's type switch names; \<open>OtherBlock\<close> stands for every other
  implementation of the \<open>ContentBlock\<close> interface (no case of the switch matches it).
\<close>

datatype ContentBlock =
    TextBlock string
  | ImageBlock Source
  | AudioBlock Source
  | VideoBlock Source
  | DocumentBlock Source
  | ToolUseBlock string string "addr option"
  | ToolResultBlock string "ContentBlock list"
  | OtherBlock

text \<open>
  Modelled from the spec: \<open>types.Message\<close> and its method \<open>ContentBlocks\<close> are not among
  the sources; the spec gives a message as a role and an ordered sequence of content blocks.
\<close>

record Message =
  msg_Role :: string
  msg_Content :: "ContentBlock list"

definition ContentBlocks :: "Message \<Rightarrow> ContentBlock list" where
  "ContentBlocks msg = msg_Content msg"

text \<open>
  Modelled from the spec: the tool type constants of package types are not among the
  sources; the spec lists the six variants. \<open>ToolTypeOther\<close> is any other type string
  (the OpenAI adapter has a case for the literal \<open>image_generation\<close>).
\<close>

datatype ToolType =
    ToolTypeFunction
  | ToolTypeWebSearch
  | ToolTypeCodeExecution
  | ToolTypeFileSearch
  | ToolTypeComputerUse
  | ToolTypeTextEditor
  | ToolTypeOther string

record WebSearchConfig =
  ws_BlockedDomains :: "string list"

record ComputerUseConfig =
  cu_DisplayWidth :: int
  cu_DisplayHeight :: int

text \<open>
  \<open>Tool.Config\<close> has type \<open>any\<close>: the dynamic types the adapters assert. A pointer is an
  option (\<open>None\<close> is the typed nil pointer, which the assertion accepts and the \<open>cfg != nil\<close>
  test then rejects); of \<open>CodeExecutionConfig\<close> only the pointer is looked at.
\<close>

datatype 'f ToolConfig =
    ConfigNil
  | ConfigWebSearch "WebSearchConfig option"
  | ConfigCodeExecution "unit option"
  | ConfigComputerUse "ComputerUseConfig option"
  | ConfigMap "string \<Rightarrow> 'f any option"
  | ConfigOther

text \<open>The schema type stays abstract (\<open>'s\<close>); \<open>InputSchema\<close> is a pointer.\<close>

record ('f, 's) Tool =
  tool_Type :: ToolType
  tool_Name :: string
  tool_Description :: string
  tool_InputSchema :: "'s option"
  tool_Config :: "'f ToolConfig"

record ToolChoice =
  tc_Type :: string
  tc_Name :: string

record 's OutputFormat =
  of_Type :: string
  of_JSONSchema :: "'s option"

text \<open>\<open>MessageRequest.System\<close> has type \<open>any\<close>: nil, a string, a block list, or another type.\<close>

datatype SystemPrompt =
    SystemNil
  | SystemString string
  | SystemBlocks "ContentBlock list"
  | SystemOther

record ('f, 's) MessageRequest =
  req_Model :: string
  req_Messages :: "Message list"
  req_System :: SystemPrompt
  req_Tools :: "('f, 's) Tool list"
  req_ToolChoice :: "ToolChoice option"
  req_Temperature :: "'f option"
  req_TopP :: "'f option"
  req_TopK :: "int option"
  req_MaxTokens :: int
  req_StopSequences :: "string list"
  req_OutputFormat :: "'s OutputFormat option"
  req_Extensions :: "string \<Rightarrow> 'f any option"

section \<open>Gemini wire format\<close>

record geminiBlob =
  blob_MIMEType :: string
  blob_Data :: string

record geminiFileData =
  fd_MIMEType :: string
  fd_FileURI :: string

text \<open>\<open>Args\<close> is the Go map the block's \<open>Input\<close> refers to: the same address.\<close>

record geminiFunctionCall =
  fc_Name :: string
  fc_Args :: "addr option"

text \<open>\<open>Response\<close> is a map the adapter allocates itself and never shares: a value.\<close>

record 'f geminiFunctionResponse =
  fr_Name :: string
  fr_Response :: "string \<Rightarrow> 'f any option"

record 'f geminiPart =
  Text :: string
  InlineData :: "geminiBlob option"
  FileData :: "geminiFileData option"
  FunctionCall :: "geminiFunctionCall option"
  FunctionResponse :: "'f geminiFunctionResponse option"
  ThoughtSignature :: string

record 'f geminiContent =
  Role :: string
  Parts :: "'f geminiPart list"

text \<open>The zero value \<open>geminiPart{}\<close>.\<close>

definition emptyPart :: "'f geminiPart" where
  "emptyPart = \<lparr>Text = [], InlineData = None, FileData = None, FunctionCall = None,
                 FunctionResponse = None, ThoughtSignature = []\<rparr>"

record geminiFunctionDecl =
  decl_Name :: string
  decl_Description :: string
  decl_Parameters :: string

record geminiGoogleSearch =
  gs_ExcludeDomains :: "string list"

text \<open>\<open>CodeExecution\<close> points to an empty struct: only presence matters.\<close>

record geminiTool =
  FunctionDeclarations :: "geminiFunctionDecl list"
  GoogleSearch :: "geminiGoogleSearch option"
  CodeExecution :: "unit option"

definition emptyTool :: geminiTool where
  "emptyTool = \<lparr>FunctionDeclarations = [], GoogleSearch = None, CodeExecution = None\<rparr>"

record geminiFunctionCallingConfig =
  Mode :: string
  AllowedFunctionNames :: "string list"

record geminiToolConfig =
  FunctionCallingConfig :: "geminiFunctionCallingConfig option"

record geminiThinkingConfig =
  ThinkingBudget :: "int option"
  ThinkingLevel :: string
  IncludeThoughts :: bool

record 'f geminiGenConfig =
  Temperature :: "'f option"
  TopP :: "'f option"
  TopK :: "int option"
  MaxOutputTokens :: "int option"
  StopSequences :: "string list"
  ResponseMIMEType :: string
  ResponseSchema :: string
  ThinkingConfig :: "geminiThinkingConfig option"

record 'f geminiRequest =
  Contents :: "'f geminiContent list"
  SystemInstruction :: "'f geminiContent option"
  Tools :: "geminiTool list"
  ToolConfig :: "geminiToolConfig option"
  GenerationConfig :: "'f geminiGenConfig option"
  SafetySettings :: "(string \<times> string) list"

section \<open>Gemini adapter: tool results\<close>

text \<open>The inner loop of \<open>getToolNameFromID\<close>: the blocks of one message, front to back.\<close>

fun findToolUse :: "string \<Rightarrow> ContentBlock list \<Rightarrow> string option" where
  "findToolUse toolUseID [] = None"
| "findToolUse toolUseID (ToolUseBlock tid name inp # blocks) =
     (if tid = toolUseID then Some name else findToolUse toolUseID blocks)"
| "findToolUse toolUseID (b # blocks) = findToolUse toolUseID blocks"

text \<open>
  The outer loop, \<open>i\<close> from \<open>len(messages) - 1\<close> down to \<open>0\<close>, over the reversed list:
  the head is the message the loop visits next.
\<close>

fun getToolNameFromID_loop :: "string \<Rightarrow> Message list \<Rightarrow> string" where
  "getToolNameFromID_loop toolUseID [] = toolUseID"
| "getToolNameFromID_loop toolUseID (msg # earlier) =
     (if msg_Role msg \<noteq> ''assistant'' then getToolNameFromID_loop toolUseID earlier
      else (case findToolUse toolUseID (ContentBlocks msg) of
              Some name \<Rightarrow> name
            | None \<Rightarrow> getToolNameFromID_loop toolUseID earlier))"

definition getToolNameFromID :: "string \<Rightarrow> Message list \<Rightarrow> string" where
  "getToolNameFromID toolUseID messages = getToolNameFromID_loop toolUseID (rev messages)"

text \<open>\<open>toolResultToMap\<close>: the loop writes the text blocks into a \<open>strings.Builder\<close>.\<close>

fun toolResultToMap_loop :: "string \<Rightarrow> ContentBlock list \<Rightarrow> string" where
  "toolResultToMap_loop text [] = text"
| "toolResultToMap_loop text (TextBlock t # content) = toolResultToMap_loop (text @ t) content"
| "toolResultToMap_loop text (b # content) = toolResultToMap_loop text content"

definition toolResultToMap :: "ContentBlock list \<Rightarrow> (string \<Rightarrow> 'f any option)" where
  "toolResultToMap content =
     (let text = toolResultToMap_loop [] content
      in if length text > 0 then Map.empty(''result'' \<mapsto> AString text) else Map.empty)"

section \<open>Gemini adapter: content blocks and messages\<close>

text \<open>
  One iteration of the loop of \<open>translateContentBlocks\<close>: the part appended to \<open>parts\<close>
  (\<open>None\<close> when the iteration appends nothing) and the store afterwards. Only the tool-use
  case writes: \<open>delete(b.Input, "__thought_signature")\<close>, after \<open>Args\<close> took the same map.
\<close>

fun translateContentBlock :: "'f heap \<Rightarrow> ContentBlock \<Rightarrow> 'f geminiPart option \<times> 'f heap" where
  "translateContentBlock h (TextBlock t) = (Some (emptyPart\<lparr>Text := t\<rparr>), h)"
| "translateContentBlock h (ImageBlock src) =
     (if src_Type src = ''url'' then
        (if prefix ''gs://'' (src_URL src)
         then (Some (emptyPart\<lparr>FileData :=
                 Some \<lparr>fd_MIMEType = src_MediaType src, fd_FileURI = src_URL src\<rparr>\<rparr>), h)
         else (Some (emptyPart\<lparr>FileData :=
                 Some \<lparr>fd_MIMEType = src_MediaType src, fd_FileURI = src_URL src\<rparr>\<rparr>), h))
      else (Some (emptyPart\<lparr>InlineData :=
                 Some \<lparr>blob_MIMEType = src_MediaType src, blob_Data = src_Data src\<rparr>\<rparr>), h))"
| "translateContentBlock h (AudioBlock src) =
     (Some (emptyPart\<lparr>InlineData :=
        Some \<lparr>blob_MIMEType = src_MediaType src, blob_Data = src_Data src\<rparr>\<rparr>), h)"
| "translateContentBlock h (VideoBlock src) =
     (if src_Type src = ''url'' \<or> prefix ''gs://'' (src_Data src) then
        (let uri = (if src_Type src = ''url'' then src_Data src else src_Data src)
         in (Some (emptyPart\<lparr>FileData :=
                     Some \<lparr>fd_MIMEType = src_MediaType src, fd_FileURI = uri\<rparr>\<rparr>), h))
      else (Some (emptyPart\<lparr>InlineData :=
                 Some \<lparr>blob_MIMEType = src_MediaType src, blob_Data = src_Data src\<rparr>\<rparr>), h))"
| "translateContentBlock h (DocumentBlock src) =
     (Some (emptyPart\<lparr>InlineData :=
        Some \<lparr>blob_MIMEType = src_MediaType src, blob_Data = src_Data src\<rparr>\<rparr>), h)"
| "translateContentBlock h (ToolUseBlock tid name inp) =
     (let part = emptyPart\<lparr>FunctionCall := Some \<lparr>fc_Name = name, fc_Args = inp\<rparr>\<rparr>
      in case inp of
           None \<Rightarrow> (Some part, h)
         | Some a \<Rightarrow>
             (case h a ''__thought_signature'' of
                Some (AString sig) \<Rightarrow>
                  (Some (part\<lparr>ThoughtSignature := sig\<rparr>),
                   h(a := (h a)(''__thought_signature'' := None)))
              | _ \<Rightarrow> (Some part, h)))"
| "translateContentBlock h (ToolResultBlock tid content) = (None, h)"
| "translateContentBlock h OtherBlock = (None, h)"

fun translateContentBlocks_loop ::
  "'f heap \<Rightarrow> 'f geminiPart list \<Rightarrow> ContentBlock list \<Rightarrow> 'f geminiPart list \<times> 'f heap" where
  "translateContentBlocks_loop h parts [] = (parts, h)"
| "translateContentBlocks_loop h parts (block # blocks) =
     (case translateContentBlock h block of
        (None, h') \<Rightarrow> translateContentBlocks_loop h' parts blocks
      | (Some part, h') \<Rightarrow> translateContentBlocks_loop h' (parts @ [part]) blocks)"

definition translateContentBlocks ::
  "'f heap \<Rightarrow> ContentBlock list \<Rightarrow> 'f geminiPart list \<times> 'f heap" where
  "translateContentBlocks h blocks = translateContentBlocks_loop h [] blocks"

text \<open>The first loop of an iteration of \<open>translateMessages\<close>: is there a tool result?\<close>

fun hasToolResults :: "ContentBlock list \<Rightarrow> bool" where
  "hasToolResults [] = False"
| "hasToolResults (ToolResultBlock tid content # blocks) = True"
| "hasToolResults (b # blocks) = hasToolResults blocks"

text \<open>The second loop: one content of role \<open>function\<close> for each tool result.\<close>

fun functionResponses ::
  "Message list \<Rightarrow> 'f geminiContent list \<Rightarrow> ContentBlock list \<Rightarrow> 'f geminiContent list" where
  "functionResponses messages contents [] = contents"
| "functionResponses messages contents (ToolResultBlock tid content # blocks) =
     functionResponses messages
       (contents @ [\<lparr>Role = ''function'',
                     Parts = [emptyPart\<lparr>FunctionResponse :=
                       Some \<lparr>fr_Name = getToolNameFromID tid messages,
                             fr_Response = toolResultToMap content\<rparr>\<rparr>]\<rparr>])
       blocks"
| "functionResponses messages contents (b # blocks) = functionResponses messages contents blocks"

text \<open>
  The loop of \<open>translateMessages\<close> over the messages still to visit; \<open>messages\<close> is the whole
  conversation, which the name lookup reads.
\<close>

fun translateMessages_loop ::
  "Message list \<Rightarrow> 'f heap \<Rightarrow> 'f geminiContent list \<Rightarrow> Message list
     \<Rightarrow> 'f geminiContent list \<times> 'f heap" where
  "translateMessages_loop messages h contents [] = (contents, h)"
| "translateMessages_loop messages h contents (msg # rest) =
     (let blocks = ContentBlocks msg in
      if hasToolResults blocks
      then translateMessages_loop messages h (functionResponses messages contents blocks) rest
      else
        (let role = (if msg_Role msg = ''assistant'' then ''model'' else msg_Role msg);
             (parts, h') = translateContentBlocks h blocks
         in translateMessages_loop messages h' (contents @ [\<lparr>Role = role, Parts = parts\<rparr>]) rest))"

definition translateMessages ::
  "'f heap \<Rightarrow> Message list \<Rightarrow> 'f geminiContent list \<times> 'f heap" where
  "translateMessages h messages = translateMessages_loop messages h [] messages"

section \<open>Gemini adapter: tools, tool choice, generation config\<close>

text \<open>
  The loop of \<open>translateTools\<close> with its two accumulators. \<open>marshal\<close> is \<open>json.Marshal\<close> on a
  schema pointer (its error is discarded by the code).
\<close>

fun gemini_translateTools_loop ::
  "('s option \<Rightarrow> string) \<Rightarrow> geminiFunctionDecl list \<Rightarrow> geminiTool list \<Rightarrow> ('f, 's) Tool list
     \<Rightarrow> geminiFunctionDecl list \<times> geminiTool list" where
  "gemini_translateTools_loop marshal funcDecls result [] = (funcDecls, result)"
| "gemini_translateTools_loop marshal funcDecls result (tool # tools) =
     (case tool_Type tool of
        ToolTypeFunction \<Rightarrow>
          gemini_translateTools_loop marshal
            (funcDecls @ [\<lparr>decl_Name = tool_Name tool,
                            decl_Description = tool_Description tool,
                            decl_Parameters = marshal (tool_InputSchema tool)\<rparr>])
            result tools
      | ToolTypeWebSearch \<Rightarrow>
          (let gs = (case tool_Config tool of
                       ConfigWebSearch (Some cfg) \<Rightarrow> \<lparr>gs_ExcludeDomains = ws_BlockedDomains cfg\<rparr>
                     | _ \<Rightarrow> \<lparr>gs_ExcludeDomains = []\<rparr>)
           in gemini_translateTools_loop marshal funcDecls
                (result @ [emptyTool\<lparr>GoogleSearch := Some gs\<rparr>]) tools)
      | ToolTypeCodeExecution \<Rightarrow>
          gemini_translateTools_loop marshal funcDecls
            (result @ [emptyTool\<lparr>CodeExecution := Some ()\<rparr>]) tools
      | ToolTypeFileSearch \<Rightarrow> gemini_translateTools_loop marshal funcDecls result tools
      | ToolTypeComputerUse \<Rightarrow> gemini_translateTools_loop marshal funcDecls result tools
      | ToolTypeTextEditor \<Rightarrow> gemini_translateTools_loop marshal funcDecls result tools
      | ToolTypeOther other \<Rightarrow> gemini_translateTools_loop marshal funcDecls result tools)"

definition gemini_translateTools ::
  "('s option \<Rightarrow> string) \<Rightarrow> ('f, 's) Tool list \<Rightarrow> geminiTool list" where
  "gemini_translateTools marshal tools =
     (case gemini_translateTools_loop marshal [] [] tools of
        (funcDecls, result) \<Rightarrow>
          if length funcDecls > 0
          then result @ [emptyTool\<lparr>FunctionDeclarations := funcDecls\<rparr>]
          else result)"

definition gemini_translateToolChoice :: "ToolChoice \<Rightarrow> geminiToolConfig" where
  "gemini_translateToolChoice tc =
     (let config = \<lparr>Mode = [], AllowedFunctionNames = []\<rparr> in
      \<lparr>FunctionCallingConfig = Some
         (if tc_Type tc = ''auto'' then config\<lparr>Mode := ''AUTO''\<rparr>
          else if tc_Type tc = ''none'' then config\<lparr>Mode := ''NONE''\<rparr>
          else if tc_Type tc = ''any'' then config\<lparr>Mode := ''ANY''\<rparr>
          else if tc_Type tc = ''tool''
            then config\<lparr>Mode := ''ANY'', AllowedFunctionNames := [tc_Name tc]\<rparr>
          else config)\<rparr>)"

text \<open>
  The thinking block of \<open>buildGenerationConfig\<close>, from the value stored under \<open>gemini\<close>.
  \<open>toInt\<close> is the conversion \<open>int(budget)\<close> of a \<open>float64\<close>.
\<close>

definition thinkingConfigOf :: "('f \<Rightarrow> int) \<Rightarrow> 'f any option \<Rightarrow> geminiThinkingConfig option" where
  "thinkingConfigOf toInt ext =
     (case ext of
        Some (AMap extm) \<Rightarrow>
          (case extm ''thinking'' of
             Some (AMap thinking) \<Rightarrow>
               (let c0 = \<lparr>ThinkingBudget = None, ThinkingLevel = [], IncludeThoughts = False\<rparr>;
                    c1 = (case thinking ''level'' of
                            Some (AString level) \<Rightarrow> c0\<lparr>ThinkingLevel := level\<rparr>
                          | _ \<Rightarrow> c0);
                    c2 = (case thinking ''budget'' of
                            Some (AFloat64 budget) \<Rightarrow> c1\<lparr>ThinkingBudget := Some (toInt budget)\<rparr>
                          | _ \<Rightarrow> c1);
                    c3 = (case thinking ''include_thoughts'' of
                            Some (ABool include) \<Rightarrow> c2\<lparr>IncludeThoughts := include\<rparr>
                          | _ \<Rightarrow> c2)
                in Some c3)
           | _ \<Rightarrow> None)
      | _ \<Rightarrow> None)"

definition buildGenerationConfig ::
  "('s option \<Rightarrow> string) \<Rightarrow> ('f \<Rightarrow> int) \<Rightarrow> ('f, 's) MessageRequest \<Rightarrow> 'f geminiGenConfig" where
  "buildGenerationConfig marshal toInt req =
     (let config = \<lparr>Temperature = req_Temperature req, TopP = req_TopP req, TopK = req_TopK req,
                     MaxOutputTokens = None, StopSequences = [], ResponseMIMEType = [],
                     ResponseSchema = [], ThinkingConfig = None\<rparr>;
          config = (if req_MaxTokens req > 0
                    then config\<lparr>MaxOutputTokens := Some (req_MaxTokens req)\<rparr> else config);
          config = (if length (req_StopSequences req) > 0
                    then config\<lparr>StopSequences := req_StopSequences req\<rparr> else config);
          config = (case req_OutputFormat req of
                      None \<Rightarrow> config
                    | Some fmt \<Rightarrow>
                        if of_Type fmt = ''json_schema''
                        then (let config = config\<lparr>ResponseMIMEType := ''application/json''\<rparr>
                              in case of_JSONSchema fmt of
                                   None \<Rightarrow> config
                                 | Some sch \<Rightarrow> config\<lparr>ResponseSchema := marshal (Some sch)\<rparr>)
                        else config)
      in config\<lparr>ThinkingConfig := thinkingConfigOf toInt (req_Extensions req ''gemini'')\<rparr>)"

fun systemTextParts :: "'f geminiPart list \<Rightarrow> ContentBlock list \<Rightarrow> 'f geminiPart list" where
  "systemTextParts parts [] = parts"
| "systemTextParts parts (TextBlock t # blocks) =
     systemTextParts (parts @ [emptyPart\<lparr>Text := t\<rparr>]) blocks"
| "systemTextParts parts (b # blocks) = systemTextParts parts blocks"

definition translateSystemInstruction :: "SystemPrompt \<Rightarrow> 'f geminiContent" where
  "translateSystemInstruction system =
     (case system of
        SystemString s \<Rightarrow> \<lparr>Role = [], Parts = [emptyPart\<lparr>Text := s\<rparr>]\<rparr>
      | SystemBlocks blocks \<Rightarrow> \<lparr>Role = [], Parts = systemTextParts [] blocks\<rparr>
      | _ \<Rightarrow> \<lparr>Role = [], Parts = []\<rparr>)"

definition buildRequest ::
  "('s option \<Rightarrow> string) \<Rightarrow> ('f \<Rightarrow> int) \<Rightarrow> 'f heap \<Rightarrow> ('f, 's) MessageRequest
     \<Rightarrow> 'f geminiRequest \<times> 'f heap" where
  "buildRequest marshal toInt h req =
     (case translateMessages h (req_Messages req) of
        (contents, h') \<Rightarrow>
          (\<lparr>Contents = contents,
            SystemInstruction =
              (if req_System req \<noteq> SystemNil
               then Some (translateSystemInstruction (req_System req)) else None),
            Tools = (if length (req_Tools req) > 0
                     then gemini_translateTools marshal (req_Tools req) else []),
            ToolConfig = (case req_ToolChoice req of
                            None \<Rightarrow> None
                          | Some tc \<Rightarrow> Some (gemini_translateToolChoice tc)),
            GenerationConfig = Some (buildGenerationConfig marshal toInt req),
            SafetySettings = []\<rparr>, h'))"

section \<open>OpenAI Responses adapter: tools and tool choice\<close>

text \<open>
  Modelled from the spec: the struct declarations \<open>responsesTool\<close> and \<open>containerConfig\<close> of
  the adapter are not among the sources; the records have the fields \<open>translateTools\<close> sets.
\<close>

record containerConfig =
  cc_Type :: string

record responsesTool =
  rt_Type :: string
  rt_Name :: string
  rt_Description :: string
  rt_Parameters :: string
  rt_SearchContextSize :: string
  rt_Container :: "containerConfig option"
  rt_VectorStoreIDs :: "string list"
  rt_Environment :: string
  rt_DisplayWidth :: int
  rt_DisplayHeight :: int

definition emptyResponsesTool :: responsesTool where
  "emptyResponsesTool =
     \<lparr>rt_Type = [], rt_Name = [], rt_Description = [], rt_Parameters = [],
      rt_SearchContextSize = [], rt_Container = None, rt_VectorStoreIDs = [],
      rt_Environment = [], rt_DisplayWidth = 0, rt_DisplayHeight = 0\<rparr>"

text \<open>The loop over a \<open>[]any\<close> of vector store ids: the strings among them, in order.\<close>

fun appendStringIDs :: "string list \<Rightarrow> 'f any list \<Rightarrow> string list" where
  "appendStringIDs acc [] = acc"
| "appendStringIDs acc (AString s # ids) = appendStringIDs (acc @ [s]) ids"
| "appendStringIDs acc (v # ids) = appendStringIDs acc ids"

text \<open>One iteration of the loop of \<open>translateTools\<close>: the entry appended, if any.\<close>

definition oai_translateTool ::
  "('s option \<Rightarrow> string) \<Rightarrow> ('f, 's) Tool \<Rightarrow> responsesTool option" where
  "oai_translateTool marshal tool =
     (case tool_Type tool of
        ToolTypeFunction \<Rightarrow>
          (let respTool = emptyResponsesTool\<lparr>rt_Type := ''function'', rt_Name := tool_Name tool,
                                             rt_Description := tool_Description tool\<rparr>
           in case tool_InputSchema tool of
                None \<Rightarrow> Some respTool
              | Some sch \<Rightarrow> Some (respTool\<lparr>rt_Parameters := marshal (Some sch)\<rparr>))
      | ToolTypeWebSearch \<Rightarrow>
          (let respTool = emptyResponsesTool\<lparr>rt_Type := ''web_search''\<rparr>
           in case tool_Config tool of
                ConfigWebSearch (Some cfg) \<Rightarrow> Some (respTool\<lparr>rt_SearchContextSize := ''medium''\<rparr>)
              | _ \<Rightarrow> Some respTool)
      | ToolTypeCodeExecution \<Rightarrow>
          (let respTool = emptyResponsesTool\<lparr>rt_Type := ''code_interpreter''\<rparr>
           in case tool_Config tool of
                ConfigCodeExecution (Some cfg) \<Rightarrow>
                  Some (respTool\<lparr>rt_Container := Some \<lparr>cc_Type = ''auto''\<rparr>\<rparr>)
              | _ \<Rightarrow> Some respTool)
      | ToolTypeFileSearch \<Rightarrow>
          (let respTool = emptyResponsesTool\<lparr>rt_Type := ''file_search''\<rparr>
           in case tool_Config tool of
                ConfigMap cfg \<Rightarrow>
                  (case cfg ''vector_store_ids'' of
                     Some (AStrings ids) \<Rightarrow> Some (respTool\<lparr>rt_VectorStoreIDs := ids\<rparr>)
                   | Some (ASlice ids) \<Rightarrow>
                       Some (respTool\<lparr>rt_VectorStoreIDs := appendStringIDs [] ids\<rparr>)
                   | _ \<Rightarrow> Some respTool)
              | _ \<Rightarrow> Some respTool)
      | ToolTypeComputerUse \<Rightarrow>
          (let respTool = emptyResponsesTool\<lparr>rt_Type := ''computer_use_preview'',
                                             rt_Environment := ''browser''\<rparr>
           in case tool_Config tool of
                ConfigComputerUse (Some cfg) \<Rightarrow>
                  Some (respTool\<lparr>rt_DisplayWidth := cu_DisplayWidth cfg,
                                 rt_DisplayHeight := cu_DisplayHeight cfg\<rparr>)
              | _ \<Rightarrow> Some (respTool\<lparr>rt_DisplayWidth := 1024, rt_DisplayHeight := 768\<rparr>))
      | ToolTypeTextEditor \<Rightarrow> None
      | ToolTypeOther other \<Rightarrow>
          if other = ''image_generation''
          then Some (emptyResponsesTool\<lparr>rt_Type := ''image_generation''\<rparr>)
          else None)"

fun oai_translateTools_loop ::
  "('s option \<Rightarrow> string) \<Rightarrow> responsesTool list \<Rightarrow> ('f, 's) Tool list \<Rightarrow> responsesTool list" where
  "oai_translateTools_loop marshal result [] = result"
| "oai_translateTools_loop marshal result (tool # tools) =
     (case oai_translateTool marshal tool of
        None \<Rightarrow> oai_translateTools_loop marshal result tools
      | Some respTool \<Rightarrow> oai_translateTools_loop marshal (result @ [respTool]) tools)"

definition oai_translateTools ::
  "('s option \<Rightarrow> string) \<Rightarrow> ('f, 's) Tool list \<Rightarrow> responsesTool list" where
  "oai_translateTools marshal tools = oai_translateTools_loop marshal [] tools"

text \<open>The result has type \<open>any\<close>: nil, a string, or a freshly built map.\<close>

definition oai_translateToolChoice :: "ToolChoice option \<Rightarrow> 'f any" where
  "oai_translateToolChoice tc =
     (case tc of
        None \<Rightarrow> ANil
      | Some c \<Rightarrow>
          if tc_Type c = ''auto'' then AString ''auto''
          else if tc_Type c = ''none'' then AString ''none''
          else if tc_Type c = ''any'' then AString ''required''
          else if tc_Type c = ''tool''
            then AMap (Map.empty(''type'' \<mapsto> AString ''function'', ''name'' \<mapsto> AString (tc_Name c)))
          else AString ''auto'')"

section \<open>Model strings\<close>

text \<open>\<open>strings.Index(model, "/")\<close>: the first position of the byte, \<open>None\<close> for \<open>-1\<close>.\<close>

fun strings_Index :: "string \<Rightarrow> char \<Rightarrow> nat option" where
  "strings_Index [] c = None"
| "strings_Index (x # xs) c =
     (if x = c then Some 0 else map_option Suc (strings_Index xs c))"

definition stripProviderPrefix :: "string \<Rightarrow> string" where
  "stripProviderPrefix model =
     (case strings_Index model (CHR ''/'') of
        Some idx \<Rightarrow> drop (idx + 1) model
      | None \<Rightarrow> model)"

text \<open>
  Modelled from the spec: \<open>core.ParseModelString\<close> is not among the sources. The spec gives
  the format \<open><provider>/<model-name>\<close>, split on the first separator, and a failure when the
  provider segment is unrecognized. \<open>providers\<close> are the recognized provider names and
  \<open>errText\<close> the text of the error for a model string (the spec gives neither).
\<close>

definition ParseModelString ::
  "string list \<Rightarrow> (string \<Rightarrow> string) \<Rightarrow> string \<Rightarrow> string + (string \<times> string)" where
  "ParseModelString providers errText s =
     (case strings_Index s (CHR ''/'') of
        None \<Rightarrow> Inl (errText s)
      | Some idx \<Rightarrow>
          if take idx s \<in> set providers
          then Inr (take idx s, drop (idx + 1) s)
          else Inl (errText s))"

section \<open>Proxy: the handler of /v1/messages\<close>

text \<open>
  Modelled from the spec: \<open>types.MessageResponse\<close> is not among the sources; the spec gives
  it as content, stop reason and usage.
\<close>

record MessageResponse =
  resp_Content :: "ContentBlock list"
  resp_StopReason :: string
  resp_InputTokens :: int
  resp_OutputTokens :: int

datatype headerValue = HString string | HInt int

text \<open>What the handler does to the response writer, the engine and the metrics, in order.\<close>

datatype ('f, 's) effect =
    WriteError nat string string
  | EngineCreateMessage "('f, 's) MessageRequest"
  | RecordError string string
  | RecordRequest string string string string
  | RecordTokens string string int int
  | SetHeader string headerValue
  | EncodeResponse MessageResponse
  | Panic

text \<open>
  \<open>handleMessages\<close>. \<open>decoded\<close> is the result of decoding the body (\<open>Inl\<close> the error text),
  \<open>parse\<close> is \<open>core.ParseModelString\<close>, \<open>engine\<close> is \<open>s.engine.CreateMessage\<close>, \<open>requestID\<close> the
  context value under the request id key when it is a string (the assertion panics
  otherwise), \<open>durationMs\<close> the elapsed time read from the clock.
\<close>

definition handleMessages ::
  "(string + ('f, 's) MessageRequest) \<Rightarrow> (string \<Rightarrow> string + (string \<times> string))
     \<Rightarrow> (('f, 's) MessageRequest \<Rightarrow> string + MessageResponse) \<Rightarrow> string option \<Rightarrow> int
     \<Rightarrow> ('f, 's) effect list" where
  "handleMessages decoded parse engine requestID durationMs =
     (case decoded of
        Inl err \<Rightarrow> [WriteError 400 ''invalid_request_error'' (''Invalid JSON: '' @ err)]
      | Inr req \<Rightarrow>
          (case parse (req_Model req) of
             Inl err \<Rightarrow> [WriteError 400 ''invalid_request_error'' err]
           | Inr (provider, model) \<Rightarrow>
               (case engine req of
                  Inl err \<Rightarrow>
                    [EngineCreateMessage req, RecordError provider ''request_error'',
                     WriteError 500 ''api_error'' err]
                | Inr resp \<Rightarrow>
                    [EngineCreateMessage req,
                     RecordRequest provider model ''/v1/messages'' ''success'']
                    @ (if resp_InputTokens resp > 0 \<or> resp_OutputTokens resp > 0
                       then [RecordTokens provider model
                               (resp_InputTokens resp) (resp_OutputTokens resp)]
                       else [])
                    @ [SetHeader ''Content-Type'' (HString ''application/json'')]
                    @ (case requestID of
                         None \<Rightarrow> [Panic]
                       | Some rid \<Rightarrow>
                           [SetHeader ''X-Request-ID'' (HString rid),
                            SetHeader ''X-Model'' (HString (req_Model req)),
                            SetHeader ''X-Input-Tokens'' (HInt (resp_InputTokens resp)),
                            SetHeader ''X-Output-Tokens'' (HInt (resp_OutputTokens resp)),
                            SetHeader ''X-Duration-Ms'' (HInt durationMs),
                            EncodeResponse resp]))))"

section \<open>Functions of the specification\<close>

text \<open>The texts of the text blocks of a sequence, in order.\<close>

fun textBlockTexts :: "ContentBlock list \<Rightarrow> string list" where
  "textBlockTexts [] = []"
| "textBlockTexts (TextBlock t # blocks) = t # textBlockTexts blocks"
| "textBlockTexts (b # blocks) = textBlockTexts blocks"

fun isTextBlock :: "ContentBlock \<Rightarrow> bool" where
  "isTextBlock (TextBlock t) = True"
| "isTextBlock b = False"

text \<open>The provider segment of a model string: what precedes the first separator.\<close>

definition providerSegment :: "string \<Rightarrow> string" where
  "providerSegment model = takeWhile (\<lambda>c. c \<noteq> CHR ''/'') model"

text \<open>The zero value \<open>MessageRequest{Model: model}\<close>.\<close>

definition zeroRequest :: "string \<Rightarrow> ('f, 's) MessageRequest" where
  "zeroRequest model =
     \<lparr>req_Model = model, req_Messages = [], req_System = SystemNil, req_Tools = [],
      req_ToolChoice = None, req_Temperature = None, req_TopP = None, req_TopK = None,
      req_MaxTokens = 0, req_StopSequences = [], req_OutputFormat = None,
      req_Extensions = Map.empty\<rparr>"

text \<open>Does a block sequence hold a tool-use block with this id?\<close>

fun containsToolUse :: "string \<Rightarrow> ContentBlock list \<Rightarrow> bool" where
  "containsToolUse t [] = False"
| "containsToolUse t (ToolUseBlock tid name inp # blocks) = (tid = t \<or> containsToolUse t blocks)"
| "containsToolUse t (b # blocks) = containsToolUse t blocks"

text \<open>The tool results of a block sequence, in order: id and content.\<close>

fun toolResultsOf :: "ContentBlock list \<Rightarrow> (string \<times> ContentBlock list) list" where
  "toolResultsOf [] = []"
| "toolResultsOf (ToolResultBlock tid content # blocks) = (tid, content) # toolResultsOf blocks"
| "toolResultsOf (b # blocks) = toolResultsOf blocks"

text \<open>The content of role \<open>function\<close> that answers one tool result in a conversation.\<close>

definition functionResponseContent ::
  "Message list \<Rightarrow> string \<times> ContentBlock list \<Rightarrow> 'f geminiContent" where
  "functionResponseContent messages tr =
     \<lparr>Role = ''function'',
      Parts = [\<lparr>Text = [], InlineData = None, FileData = None, FunctionCall = None,
                FunctionResponse = Some \<lparr>fr_Name = getToolNameFromID (fst tr) messages,
                                         fr_Response = toolResultToMap (snd tr)\<rparr>,
                ThoughtSignature = []\<rparr>]\<rparr>"

text \<open>The addresses of the input maps of the tool-use blocks of a sequence.\<close>

fun inputAddrs :: "ContentBlock list \<Rightarrow> addr list" where
  "inputAddrs [] = []"
| "inputAddrs (ToolUseBlock tid name (Some a) # blocks) = a # inputAddrs blocks"
| "inputAddrs (b # blocks) = inputAddrs blocks"

text \<open>The store after \<open>delete(m, "__thought_signature")\<close> on the map at an address.\<close>

definition strippedStore :: "'f heap \<Rightarrow> addr \<Rightarrow> 'f heap" where
  "strippedStore h a = h(a := (h a)(''__thought_signature'' := None))"

text \<open>The tool variants by what the Gemini adapter does with them.\<close>

definition isFunctionTool :: "('f, 's) Tool \<Rightarrow> bool" where
  "isFunctionTool t = (tool_Type t = ToolTypeFunction)"

definition isNativeTool :: "('f, 's) Tool \<Rightarrow> bool" where
  "isNativeTool t = (tool_Type t = ToolTypeWebSearch \<or> tool_Type t = ToolTypeCodeExecution)"

definition geminiUnsupported :: "('f, 's) Tool \<Rightarrow> bool" where
  "geminiUnsupported t =
     (tool_Type t = ToolTypeFileSearch \<or> tool_Type t = ToolTypeComputerUse
      \<or> tool_Type t = ToolTypeTextEditor)"

text \<open>The declaration of a function tool, and the entry of a web search or code execution tool.\<close>

definition functionDecl :: "('s option \<Rightarrow> string) \<Rightarrow> ('f, 's) Tool \<Rightarrow> geminiFunctionDecl" where
  "functionDecl marshal t =
     \<lparr>decl_Name = tool_Name t, decl_Description = tool_Description t,
      decl_Parameters = marshal (tool_InputSchema t)\<rparr>"

definition nativeEntry :: "('f, 's) Tool \<Rightarrow> geminiTool" where
  "nativeEntry t =
     (if tool_Type t = ToolTypeWebSearch
      then \<lparr>FunctionDeclarations = [],
            GoogleSearch = Some \<lparr>gs_ExcludeDomains =
              (case tool_Config t of ConfigWebSearch (Some cfg) \<Rightarrow> ws_BlockedDomains cfg | _ \<Rightarrow> [])\<rparr>,
            CodeExecution = None\<rparr>
      else \<lparr>FunctionDeclarations = [], GoogleSearch = None, CodeExecution = Some ()\<rparr>)"

section \<open>Tool results as function responses\<close>

lemma toolResultToMap_loop_concat:
  "toolResultToMap_loop acc content = acc @ concat (textBlockTexts content)"
  by (induction acc content rule: toolResultToMap_loop.induct) simp_all

lemma textBlockTexts_filter:
  "textBlockTexts (filter isTextBlock content) = textBlockTexts content"
  by (induction content rule: textBlockTexts.induct) simp_all

text \<open>
  C10. \<open>toolResultToMap\<close> yields the map with the single key \<open>result\<close>, bound to the
  concatenation in order of the texts of the text blocks, when that concatenation is not
  empty, and the empty map otherwise; the blocks that are not text blocks contribute
  nothing (removing them leaves the result the same).
\<close>

theorem toolResultToMap_texts:
  "(toolResultToMap content :: string \<Rightarrow> 'f any option) =
     (if concat (textBlockTexts content) = [] then Map.empty
      else Map.empty(''result'' \<mapsto> AString (concat (textBlockTexts content))))
   \<and> (toolResultToMap (filter isTextBlock content) :: string \<Rightarrow> 'f any option) =
       toolResultToMap content"
  by (simp add: toolResultToMap_def toolResultToMap_loop_concat textBlockTexts_filter Let_def)

section \<open>Model strings and the proxy handler\<close>

lemma strings_Index_Some:
  "strings_Index s c = Some idx \<Longrightarrow>
     s = take idx s @ c # drop (idx + 1) s \<and> c \<notin> set (take idx s) \<and> idx < length s"
proof (induction s arbitrary: idx)
  case Nil
  then show ?case by simp
next
  case (Cons x xs)
  show ?case
  proof (cases "x = c")
    case True
    with Cons.prems show ?thesis by simp
  next
    case False
    with Cons.prems obtain j where j: "strings_Index xs c = Some j" "idx = Suc j"
      by auto
    from Cons.IH[OF j(1)] False j(2) show ?thesis by simp
  qed
qed

lemma strings_Index_None: "strings_Index s c = None \<longleftrightarrow> c \<notin> set s"
  by (induction s) auto

lemma strings_Index_takeWhile:
  "strings_Index s c = Some idx \<Longrightarrow> take idx s = takeWhile (\<lambda>x. x \<noteq> c) s"
  by (induction s arbitrary: idx) (auto split: if_splits)

lemma stripProviderPrefix_split:
  assumes "CHR ''/'' \<in> set model"
  shows "\<exists>pre. model = pre @ CHR ''/'' # stripProviderPrefix model \<and> CHR ''/'' \<notin> set pre"
proof -
  from assms obtain idx where i: "strings_Index model (CHR ''/'') = Some idx"
    using strings_Index_None[of model "CHR ''/''"]
    by (cases "strings_Index model (CHR ''/'')") auto
  from strings_Index_Some[OF i]
  have "model = take idx model @ CHR ''/'' # stripProviderPrefix model
          \<and> CHR ''/'' \<notin> set (take idx model)"
    by (simp add: stripProviderPrefix_def i)
  then show ?thesis by blast
qed

lemma stripProviderPrefix_unchanged:
  "CHR ''/'' \<notin> set model \<Longrightarrow> stripProviderPrefix model = model"
  using strings_Index_None[of model "CHR ''/''"] by (simp add: stripProviderPrefix_def)

lemma ParseModelString_unrecognized:
  "providerSegment s \<notin> set providers \<Longrightarrow> ParseModelString providers errText s = Inl (errText s)"
  by (auto simp: ParseModelString_def providerSegment_def strings_Index_takeWhile
           split: option.splits)

lemma handleMessages_parse_error:
  "parse (req_Model req) = Inl err \<Longrightarrow>
     handleMessages (Inr req) parse engine requestID durationMs =
       [WriteError 400 ''invalid_request_error'' err]"
  by (simp add: handleMessages_def)

text \<open>
  C7. \<open>stripProviderPrefix\<close> splits on the first separator: a model string with a \<open>/\<close> is
  some \<open>pre\<close> without \<open>/\<close>, then \<open>/\<close>, then exactly the result; a string without \<open>/\<close> is
  returned unchanged. In the handler of \<open>/v1/messages\<close>, whenever parsing the model string
  fails, the only effect is an error response of status 400 and type
  \<open>invalid_request_error\<close>: the engine is not called. With the parser as the spec gives it,
  that is the case whenever the provider segment is not a recognized provider.
\<close>

theorem model_string_parsing:
  "(CHR ''/'' \<in> set model \<longrightarrow>
      (\<exists>pre. model = pre @ CHR ''/'' # stripProviderPrefix model \<and> CHR ''/'' \<notin> set pre))
   \<and> (CHR ''/'' \<notin> set model \<longrightarrow> stripProviderPrefix model = model)
   \<and> (parse (req_Model req) = Inl err \<longrightarrow>
        handleMessages (Inr req) parse engine requestID durationMs =
          [WriteError 400 ''invalid_request_error'' err])
   \<and> (providerSegment (req_Model req) \<notin> set providers \<longrightarrow>
        handleMessages (Inr req) (ParseModelString providers errText) engine requestID durationMs =
          [WriteError 400 ''invalid_request_error'' (errText (req_Model req))])"
proof (intro conjI impI)
  assume "CHR ''/'' \<in> set model"
  then show "\<exists>pre. model = pre @ CHR ''/'' # stripProviderPrefix model \<and> CHR ''/'' \<notin> set pre"
    by (rule stripProviderPrefix_split)
next
  assume "CHR ''/'' \<notin> set model"
  then show "stripProviderPrefix model = model"
    by (rule stripProviderPrefix_unchanged)
next
  assume "parse (req_Model req) = Inl err"
  then show "handleMessages (Inr req) parse engine requestID durationMs =
               [WriteError 400 ''invalid_request_error'' err]"
    by (rule handleMessages_parse_error)
next
  assume "providerSegment (req_Model req) \<notin> set providers"
  then have "ParseModelString providers errText (req_Model req) = Inl (errText (req_Model req))"
    by (rule ParseModelString_unrecognized)
  then show "handleMessages (Inr req) (ParseModelString providers errText) engine requestID
               durationMs = [WriteError 400 ''invalid_request_error'' (errText (req_Model req))]"
    by (rule handleMessages_parse_error)
qed

theorem model_string_parsing_witness:
  "CHR ''/'' \<in> set ''gemini/models/flash''
   \<and> (\<exists>pre. ''gemini/models/flash'' = pre @ CHR ''/'' # stripProviderPrefix ''gemini/models/flash''
              \<and> CHR ''/'' \<notin> set pre)
   \<and> CHR ''/'' \<notin> set ''flash'' \<and> stripProviderPrefix ''flash'' = ''flash''
   \<and> (\<lambda>s. if s = ''x'' then Inl ''bad model'' else Inr (s, s))
        (req_Model (zeroRequest ''x'' :: (unit, unit) MessageRequest)) = Inl ''bad model''
   \<and> handleMessages (Inr (zeroRequest ''x'' :: (unit, unit) MessageRequest))
        (\<lambda>s. if s = ''x'' then Inl ''bad model'' else Inr (s, s))
        (\<lambda>r. Inr \<lparr>resp_Content = [], resp_StopReason = ''end_turn'',
                   resp_InputTokens = 1, resp_OutputTokens = 1\<rparr>) (Some ''req-1'') 5
        = [WriteError 400 ''invalid_request_error'' ''bad model'']
   \<and> providerSegment (req_Model (zeroRequest ''acme/m1'' :: (unit, unit) MessageRequest))
        \<notin> set [''anthropic'', ''openai'', ''gemini'']
   \<and> handleMessages (Inr (zeroRequest ''acme/m1'' :: (unit, unit) MessageRequest))
        (ParseModelString [''anthropic'', ''openai'', ''gemini''] (\<lambda>s. ''unknown provider in '' @ s))
        (\<lambda>r. Inr \<lparr>resp_Content = [], resp_StopReason = ''end_turn'',
                   resp_InputTokens = 1, resp_OutputTokens = 1\<rparr>) (Some ''req-1'') 5
        = [WriteError 400 ''invalid_request_error'' ''unknown provider in acme/m1'']"
  using model_string_parsing[where model = "''gemini/models/flash''"
          and req = "zeroRequest ''x'' :: (unit, unit) MessageRequest"
          and parse = "\<lambda>s. if s = ''x'' then Inl ''bad model'' else Inr (s, s)"
          and err = "''bad model''"
          and engine = "\<lambda>r. Inr \<lparr>resp_Content = [], resp_StopReason = ''end_turn'',
                   resp_InputTokens = 1, resp_OutputTokens = 1\<rparr>"
          and requestID = "Some ''req-1''" and durationMs = 5
          and providers = "[]" and errText = "\<lambda>s. s"]
        model_string_parsing[where model = "''flash''"
          and req = "zeroRequest ''acme/m1'' :: (unit, unit) MessageRequest"
          and parse = "\<lambda>s. Inr (s, s)"
          and err = "''e''"
          and engine = "\<lambda>r. Inr \<lparr>resp_Content = [], resp_StopReason = ''end_turn'',
                   resp_InputTokens = 1, resp_OutputTokens = 1\<rparr>"
          and requestID = "Some ''req-1''" and durationMs = 5
          and providers = "[''anthropic'', ''openai'', ''gemini'']"
          and errText = "\<lambda>s. ''unknown provider in '' @ s"]
  by (simp add: zeroRequest_def providerSegment_def)

section \<open>Name lookup for tool results\<close>

lemma findToolUse_None: "\<not> containsToolUse t blocks \<Longrightarrow> findToolUse t blocks = None"
  by (induction t blocks rule: findToolUse.induct) auto

lemma findToolUse_first:
  "\<not> containsToolUse t bs1 \<Longrightarrow> findToolUse t (bs1 @ ToolUseBlock t name inp # bs2) = Some name"
  by (induction t bs1 rule: containsToolUse.induct) auto

lemma getToolNameFromID_loop_skip:
  "\<forall>m \<in> set ms. msg_Role m = ''assistant'' \<longrightarrow> \<not> containsToolUse t (ContentBlocks m) \<Longrightarrow>
   getToolNameFromID_loop t (ms @ rest) = getToolNameFromID_loop t rest"
  by (induction ms) (auto simp: findToolUse_None)

lemma getToolNameFromID_absent:
  "\<forall>m \<in> set messages. msg_Role m = ''assistant'' \<longrightarrow> \<not> containsToolUse t (ContentBlocks m) \<Longrightarrow>
   getToolNameFromID t messages = t"
  using getToolNameFromID_loop_skip[of "rev messages" t "[]"] by (simp add: getToolNameFromID_def)

lemma getToolNameFromID_found:
  assumes "msg_Role m = ''assistant''"
    and "ContentBlocks m = bs1 @ ToolUseBlock t name inp # bs2"
    and "\<not> containsToolUse t bs1"
    and "\<forall>m' \<in> set post. msg_Role m' = ''assistant'' \<longrightarrow> \<not> containsToolUse t (ContentBlocks m')"
  shows "getToolNameFromID t (pre @ m # post) = name"
proof -
  have "getToolNameFromID t (pre @ m # post) = getToolNameFromID_loop t (rev post @ m # rev pre)"
    by (simp add: getToolNameFromID_def)
  also have "\<dots> = getToolNameFromID_loop t (m # rev pre)"
    using assms(4) by (intro getToolNameFromID_loop_skip) simp
  also have "\<dots> = name"
    using assms(1,2,3) by (simp add: findToolUse_first)
  finally show ?thesis .
qed

section \<open>Translation of content blocks\<close>

lemma tcb_loop_acc:
  "translateContentBlocks_loop h acc bs =
     (acc @ fst (translateContentBlocks_loop h [] bs), snd (translateContentBlocks_loop h [] bs))"
proof (induction bs arbitrary: h acc)
  case Nil
  then show ?case by simp
next
  case (Cons b bs)
  obtain po h' where s: "translateContentBlock h b = (po, h')" by (cases "translateContentBlock h b")
  show ?case
  proof (cases po)
    case None
    with s Cons.IH[of h' acc] show ?thesis by simp
  next
    case (Some p)
    with s Cons.IH[of h' "acc @ [p]"] Cons.IH[of h' "[p]"] show ?thesis by simp
  qed
qed

lemma tcb_Nil: "translateContentBlocks h [] = ([], h)"
  by (simp add: translateContentBlocks_def)

lemma tcb_Cons:
  "translateContentBlocks h (b # bs) =
     (case translateContentBlock h b of
        (po, h1) \<Rightarrow>
          (case translateContentBlocks h1 bs of
             (p2, h2) \<Rightarrow> ((case po of None \<Rightarrow> [] | Some p \<Rightarrow> [p]) @ p2, h2)))"
proof -
  obtain po h1 where s: "translateContentBlock h b = (po, h1)" by (cases "translateContentBlock h b")
  show ?thesis
    using s tcb_loop_acc[of h1 "[the po]" bs]
    by (cases po) (simp_all add: translateContentBlocks_def split: prod.splits)
qed

lemma tcb_append:
  "translateContentBlocks h (xs @ ys) =
     (case translateContentBlocks h xs of
        (p1, h1) \<Rightarrow>
          (case translateContentBlocks h1 ys of (p2, h2) \<Rightarrow> (p1 @ p2, h2)))"
proof (induction xs arbitrary: h)
  case Nil
  then show ?case by (simp add: tcb_Nil split: prod.splits)
next
  case (Cons x xs)
  then show ?case by (simp add: tcb_Cons split: prod.splits)
qed

text \<open>What the loop does to the store: it only deletes the reserved key.\<close>

lemma tcb_snd_Cons:
  "snd (translateContentBlocks h (b # bs)) =
     snd (translateContentBlocks (snd (translateContentBlock h b)) bs)"
  by (simp add: tcb_Cons split: prod.splits)

lemma tcblock_other_keys:
  "k \<noteq> ''__thought_signature'' \<Longrightarrow> snd (translateContentBlock h b) a k = h a k"
  by (cases b) (auto simp: Let_def split: option.splits any.splits)

lemma tcblock_absent:
  "h a ''__thought_signature'' = None \<Longrightarrow> snd (translateContentBlock h b) a = h a"
  by (cases b) (auto simp: Let_def split: option.splits any.splits)

lemma tcb_absent:
  "h a ''__thought_signature'' = None \<Longrightarrow> snd (translateContentBlocks h bs) a = h a"
proof (induction bs arbitrary: h)
  case Nil
  then show ?case by (simp add: tcb_Nil)
next
  case (Cons b bs)
  have e: "snd (translateContentBlock h b) a = h a"
    using Cons.prems by (rule tcblock_absent)
  with Cons.prems have "snd (translateContentBlock h b) a ''__thought_signature'' = None" by simp
  then have "snd (translateContentBlocks (snd (translateContentBlock h b)) bs) a
               = snd (translateContentBlock h b) a"
    by (rule Cons.IH)
  with e show ?case by (simp add: tcb_snd_Cons)
qed

lemma tcb_other_keys:
  "k \<noteq> ''__thought_signature'' \<Longrightarrow> snd (translateContentBlocks h bs) a k = h a k"
proof (induction bs arbitrary: h)
  case Nil
  then show ?case by (simp add: tcb_Nil)
next
  case (Cons b bs)
  have "snd (translateContentBlocks (snd (translateContentBlock h b)) bs) a k
          = snd (translateContentBlock h b) a k"
    using Cons.prems by (rule Cons.IH)
  also have "\<dots> = h a k"
    using Cons.prems by (rule tcblock_other_keys)
  finally show ?case by (simp add: tcb_snd_Cons)
qed

lemma tcblock_unaliased:
  "a \<notin> set (inputAddrs [b]) \<Longrightarrow> snd (translateContentBlock h b) a = h a"
  by (cases b) (auto simp: Let_def split: option.splits any.splits)

lemma inputAddrs_Cons: "set (inputAddrs (b # bs)) = set (inputAddrs [b]) \<union> set (inputAddrs bs)"
  by (induction "b # bs" rule: inputAddrs.induct) auto

lemma tcb_unaliased:
  "a \<notin> set (inputAddrs bs) \<Longrightarrow> snd (translateContentBlocks h bs) a = h a"
proof (induction bs arbitrary: h)
  case Nil
  then show ?case by (simp add: tcb_Nil)
next
  case (Cons b bs)
  from Cons.prems have n: "a \<notin> set (inputAddrs [b])" "a \<notin> set (inputAddrs bs)"
    using inputAddrs_Cons[of b bs] by auto
  have "snd (translateContentBlocks (snd (translateContentBlock h b)) bs) a
          = snd (translateContentBlock h b) a"
    using n(2) by (rule Cons.IH)
  also have "\<dots> = h a"
    using n(1) by (rule tcblock_unaliased)
  finally show ?case by (simp add: tcb_snd_Cons)
qed

text \<open>
  C6. An image block becomes one part, in place. When the source type is \<open>url\<close> the part
  has only \<open>FileData\<close>, with the block's URL and media type, whatever the URL's scheme
  (so also for \<open>gs://\<close>); otherwise it has only \<open>InlineData\<close>, with the block's data and
  media type.
\<close>

theorem image_block_translation:
  "translateContentBlocks h (pre @ ImageBlock src # post) =
     (case translateContentBlocks h pre of
        (p1, h1) \<Rightarrow>
          (case translateContentBlocks h1 post of
             (p2, h2) \<Rightarrow>
               (p1 @ [if src_Type src = ''url''
                      then \<lparr>Text = [], InlineData = None,
                            FileData = Some \<lparr>fd_MIMEType = src_MediaType src, fd_FileURI = src_URL src\<rparr>,
                            FunctionCall = None, FunctionResponse = None, ThoughtSignature = []\<rparr>
                      else \<lparr>Text = [],
                            InlineData = Some \<lparr>blob_MIMEType = src_MediaType src, blob_Data = src_Data src\<rparr>,
                            FileData = None,
                            FunctionCall = None, FunctionResponse = None, ThoughtSignature = []\<rparr>] @ p2,
                h2)))"
  by (simp add: tcb_append tcb_Cons emptyPart_def split: prod.splits)

lemma tcb_fst_mid:
  "fst (translateContentBlocks h (pre @ b # post)) =
     fst (translateContentBlocks h pre)
     @ (case fst (translateContentBlock (snd (translateContentBlocks h pre)) b) of
          None \<Rightarrow> [] | Some p \<Rightarrow> [p])
     @ fst (translateContentBlocks
              (snd (translateContentBlock (snd (translateContentBlocks h pre)) b)) post)"
  by (simp add: tcb_append tcb_Cons split: prod.splits)

lemma tcb_snd_mid:
  "snd (translateContentBlocks h (pre @ b # post)) =
     snd (translateContentBlocks
            (snd (translateContentBlock (snd (translateContentBlocks h pre)) b)) post)"
  by (simp add: tcb_append tcb_Cons split: prod.splits)

lemma step_nosig:
  "h1 a ''__thought_signature'' = None \<Longrightarrow>
     translateContentBlock h1 (ToolUseBlock tid name (Some a)) =
       (Some \<lparr>Text = [], InlineData = None, FileData = None,
              FunctionCall = Some \<lparr>fc_Name = name, fc_Args = Some a\<rparr>,
              FunctionResponse = None, ThoughtSignature = []\<rparr>, h1)"
  by (simp add: emptyPart_def)

text \<open>
  C3. Take a tool-use block with input map at address \<open>a\<close>, in any block sequence. If that
  map binds the reserved key to a string \<open>s\<close> when the loop reaches the block, the block's
  part is a function call with \<open>ThoughtSignature = s\<close> whose \<open>Args\<close> is the map at \<open>a\<close>;
  at the end of the translation that map has no reserved key and every other key is bound
  as the caller's map bound it. If the map has no reserved key, the part has an empty
  \<open>ThoughtSignature\<close> and the map is unchanged. The map the loop finds is the caller's when
  no earlier block of the sequence shares it, or when the caller's has no reserved key.
  A block with a nil input map gets a part with nil \<open>Args\<close> and an empty
  \<open>ThoughtSignature\<close>, and leaves the store alone.
\<close>

theorem thought_signature_extraction:
  "(snd (translateContentBlocks h pre) a ''__thought_signature'' = Some (AString s) \<longrightarrow>
      fst (translateContentBlocks h (pre @ ToolUseBlock tid name (Some a) # post)) =
        fst (translateContentBlocks h pre)
        @ [\<lparr>Text = [], InlineData = None, FileData = None,
             FunctionCall = Some \<lparr>fc_Name = name, fc_Args = Some a\<rparr>,
             FunctionResponse = None, ThoughtSignature = s\<rparr>]
        @ fst (translateContentBlocks (strippedStore (snd (translateContentBlocks h pre)) a) post)
      \<and> snd (translateContentBlocks h (pre @ ToolUseBlock tid name (Some a) # post)) a
            ''__thought_signature'' = None
      \<and> (\<forall>k. k \<noteq> ''__thought_signature'' \<longrightarrow>
            snd (translateContentBlocks h (pre @ ToolUseBlock tid name (Some a) # post)) a k
              = h a k))
   \<and> (snd (translateContentBlocks h pre) a ''__thought_signature'' = None \<longrightarrow>
        fst (translateContentBlocks h (pre @ ToolUseBlock tid name (Some a) # post)) =
          fst (translateContentBlocks h pre)
          @ [\<lparr>Text = [], InlineData = None, FileData = None,
               FunctionCall = Some \<lparr>fc_Name = name, fc_Args = Some a\<rparr>,
               FunctionResponse = None, ThoughtSignature = []\<rparr>]
          @ fst (translateContentBlocks (snd (translateContentBlocks h pre)) post)
        \<and> snd (translateContentBlocks h (pre @ ToolUseBlock tid name (Some a) # post)) a
              = snd (translateContentBlocks h pre) a)
   \<and> (h a ''__thought_signature'' = None \<longrightarrow> snd (translateContentBlocks h pre) a = h a)
   \<and> (a \<notin> set (inputAddrs pre) \<longrightarrow> snd (translateContentBlocks h pre) a = h a)
   \<and> translateContentBlocks h (pre @ ToolUseBlock tid name None # post) =
       (fst (translateContentBlocks h pre)
        @ [\<lparr>Text = [], InlineData = None, FileData = None,
             FunctionCall = Some \<lparr>fc_Name = name, fc_Args = None\<rparr>,
             FunctionResponse = None, ThoughtSignature = []\<rparr>]
        @ fst (translateContentBlocks (snd (translateContentBlocks h pre)) post),
        snd (translateContentBlocks (snd (translateContentBlocks h pre)) post))"
  (is "(?sig \<longrightarrow> ?A1 \<and> ?A2 \<and> ?A3) \<and> (?nosig \<longrightarrow> ?B1 \<and> ?B2) \<and> (?C \<longrightarrow> ?C1)
       \<and> (?D \<longrightarrow> ?D1) \<and> ?E")
proof -
  define h1 where "h1 = snd (translateContentBlocks h pre)"
  define p1 where "p1 = fst (translateContentBlocks h pre)"
  define R where "R = translateContentBlocks h (pre @ ToolUseBlock tid name (Some a) # post)"
  have A: "?A1 \<and> ?A2 \<and> ?A3" if sig: "h1 a ''__thought_signature'' = Some (AString s)"
  proof -
    have st: "translateContentBlock h1 (ToolUseBlock tid name (Some a)) =
       (Some \<lparr>Text = [], InlineData = None, FileData = None,
              FunctionCall = Some \<lparr>fc_Name = name, fc_Args = Some a\<rparr>,
              FunctionResponse = None, ThoughtSignature = s\<rparr>, strippedStore h1 a)"
      using sig by (simp add: emptyPart_def strippedStore_def)
    have a1: ?A1
      using st by (simp add: h1_def tcb_fst_mid)
    have "snd R a = snd (translateContentBlocks (strippedStore h1 a) post) a"
      using st by (simp add: R_def h1_def tcb_snd_mid)
    also have "\<dots> = strippedStore h1 a a"
      by (rule tcb_absent) (simp add: strippedStore_def)
    finally have fin: "snd R a = strippedStore h1 a a" .
    have a2: ?A2
      using fin by (simp add: strippedStore_def R_def)
    have a3: ?A3
    proof (intro allI impI)
      fix k :: string
      assume k: "k \<noteq> ''__thought_signature''"
      then have "snd R a k = h1 a k"
        using fin by (simp add: strippedStore_def)
      also have "\<dots> = h a k"
        unfolding h1_def using k by (rule tcb_other_keys)
      finally show "snd (translateContentBlocks h (pre @ ToolUseBlock tid name (Some a) # post)) a k
              = h a k" by (simp add: R_def)
    qed
    from a1 a2 a3 show ?thesis by blast
  qed
  have B: "?B1 \<and> ?B2" if nosig: "h1 a ''__thought_signature'' = None"
  proof -
    have st: "translateContentBlock h1 (ToolUseBlock tid name (Some a)) =
       (Some \<lparr>Text = [], InlineData = None, FileData = None,
              FunctionCall = Some \<lparr>fc_Name = name, fc_Args = Some a\<rparr>,
              FunctionResponse = None, ThoughtSignature = []\<rparr>, h1)"
      using nosig by (rule step_nosig)
    have b1: ?B1
      using st by (simp add: h1_def tcb_fst_mid)
    have "snd R a = snd (translateContentBlocks h1 post) a"
      using st by (simp add: R_def h1_def tcb_snd_mid)
    also have "\<dots> = h1 a"
      using nosig by (rule tcb_absent)
    finally have b2: ?B2 by (simp add: R_def h1_def)
    from b1 b2 show ?thesis by blast
  qed
  have C: ?C1 if ?C
    using that by (rule tcb_absent)
  have D: ?D1 if ?D
    using that by (rule tcb_unaliased)
  have E: ?E
    by (simp add: tcb_append tcb_Cons emptyPart_def split: prod.splits)
  from A B C D E show ?thesis unfolding h1_def by blast
qed


theorem thought_signature_extraction_witness:
  "snd (translateContentBlocks
          ((\<lambda>a. Map.empty)(0 := [''__thought_signature'' \<mapsto> AString ''sig1'',
                                   ''city'' \<mapsto> (AString ''Paris'' :: unit any)],
                             1 := [''city'' \<mapsto> AString ''Rome'']))
          [TextBlock ''hi'']) 0 ''__thought_signature'' = Some (AString ''sig1'')
   \<and> fst (translateContentBlocks
          ((\<lambda>a. Map.empty)(0 := [''__thought_signature'' \<mapsto> AString ''sig1'',
                                   ''city'' \<mapsto> (AString ''Paris'' :: unit any)],
                             1 := [''city'' \<mapsto> AString ''Rome'']))
          ([TextBlock ''hi''] @ ToolUseBlock ''t1'' ''get_weather'' (Some 0) # []))
       = [\<lparr>Text = ''hi'', InlineData = None, FileData = None, FunctionCall = None,
            FunctionResponse = None, ThoughtSignature = []\<rparr>,
          \<lparr>Text = [], InlineData = None, FileData = None,
            FunctionCall = Some \<lparr>fc_Name = ''get_weather'', fc_Args = Some 0\<rparr>,
            FunctionResponse = None, ThoughtSignature = ''sig1''\<rparr>]
   \<and> snd (translateContentBlocks
          ((\<lambda>a. Map.empty)(0 := [''__thought_signature'' \<mapsto> AString ''sig1'',
                                   ''city'' \<mapsto> (AString ''Paris'' :: unit any)],
                             1 := [''city'' \<mapsto> AString ''Rome'']))
          ([TextBlock ''hi''] @ ToolUseBlock ''t1'' ''get_weather'' (Some 0) # []))
        0 ''__thought_signature'' = None
   \<and> ''city'' \<noteq> ''__thought_signature''
   \<and> snd (translateContentBlocks
          ((\<lambda>a. Map.empty)(0 := [''__thought_signature'' \<mapsto> AString ''sig1'',
                                   ''city'' \<mapsto> (AString ''Paris'' :: unit any)],
                             1 := [''city'' \<mapsto> AString ''Rome'']))
          ([TextBlock ''hi''] @ ToolUseBlock ''t1'' ''get_weather'' (Some 0) # []))
        0 ''city'' = Some (AString ''Paris'')
   \<and> snd (translateContentBlocks
          ((\<lambda>a. Map.empty)(0 := [''__thought_signature'' \<mapsto> AString ''sig1'',
                                   ''city'' \<mapsto> (AString ''Paris'' :: unit any)],
                             1 := [''city'' \<mapsto> AString ''Rome'']))
          [TextBlock ''hi'']) 1 ''__thought_signature'' = None
   \<and> fst (translateContentBlocks
          ((\<lambda>a. Map.empty)(0 := [''__thought_signature'' \<mapsto> AString ''sig1'',
                                   ''city'' \<mapsto> (AString ''Paris'' :: unit any)],
                             1 := [''city'' \<mapsto> AString ''Rome'']))
          ([TextBlock ''hi''] @ ToolUseBlock ''t2'' ''get_time'' (Some 1) # []))
       = [\<lparr>Text = ''hi'', InlineData = None, FileData = None, FunctionCall = None,
            FunctionResponse = None, ThoughtSignature = []\<rparr>,
          \<lparr>Text = [], InlineData = None, FileData = None,
            FunctionCall = Some \<lparr>fc_Name = ''get_time'', fc_Args = Some 1\<rparr>,
            FunctionResponse = None, ThoughtSignature = []\<rparr>]
   \<and> ((\<lambda>a. Map.empty)(0 := [''__thought_signature'' \<mapsto> AString ''sig1'',
                                ''city'' \<mapsto> (AString ''Paris'' :: unit any)],
                          1 := [''city'' \<mapsto> AString ''Rome'']))
        1 ''__thought_signature'' = None
   \<and> 0 \<notin> set (inputAddrs [TextBlock ''hi''])"
  using thought_signature_extraction[where
      h = "(\<lambda>a. Map.empty)(0 := [''__thought_signature'' \<mapsto> AString ''sig1'',
                                   ''city'' \<mapsto> (AString ''Paris'' :: unit any)],
                             1 := [''city'' \<mapsto> AString ''Rome''])"
      and pre = "[TextBlock ''hi'']" and a = 0 and s = "''sig1''" and tid = "''t1''"
      and name = "''get_weather''" and post = "[]"]
    thought_signature_extraction[where
      h = "(\<lambda>a. Map.empty)(0 := [''__thought_signature'' \<mapsto> AString ''sig1'',
                                   ''city'' \<mapsto> (AString ''Paris'' :: unit any)],
                             1 := [''city'' \<mapsto> AString ''Rome''])"
      and pre = "[TextBlock ''hi'']" and a = 1 and s = "''sig1''" and tid = "''t2''"
      and name = "''get_time''" and post = "[]"]
  by (simp add: translateContentBlocks_def emptyPart_def strippedStore_def)

text \<open>
  Two tool-use blocks that share one input map: the first takes the signature and deletes
  the key, so the second is reached with no reserved key in its map.
\<close>

lemma shared_input_map_example:
  "map ThoughtSignature
     (fst (translateContentBlocks
        ((\<lambda>a. Map.empty)(0 := [''__thought_signature'' \<mapsto> (AString ''sig1'' :: unit any)]))
        [ToolUseBlock ''t1'' ''get_weather'' (Some 0), ToolUseBlock ''t2'' ''get_time'' (Some 0)]))
   = [''sig1'', []]"
  by (simp add: translateContentBlocks_def emptyPart_def)

section \<open>Messages with tool results\<close>

lemma functionResponses_map:
  "functionResponses messages contents blocks =
     contents @ map (functionResponseContent messages) (toolResultsOf blocks)"
  by (induction messages contents blocks rule: functionResponses.induct)
     (simp_all add: functionResponseContent_def emptyPart_def)

lemma hasToolResults_iff:
  "hasToolResults blocks \<longleftrightarrow> (\<exists>tid content. ToolResultBlock tid content \<in> set blocks)"
  by (induction blocks rule: hasToolResults.induct) auto

lemma tm_loop_acc:
  "translateMessages_loop all h acc ms =
     (acc @ fst (translateMessages_loop all h [] ms), snd (translateMessages_loop all h [] ms))"
proof (induction ms arbitrary: h acc)
  case Nil
  then show ?case by simp
next
  case (Cons m ms)
  show ?case
  proof (cases "hasToolResults (ContentBlocks m)")
    case True
    then show ?thesis
      using Cons.IH[of h "functionResponses all acc (ContentBlocks m)"]
            Cons.IH[of h "functionResponses all [] (ContentBlocks m)"]
      by (simp add: functionResponses_map)
  next
    case False
    obtain parts h' where t: "translateContentBlocks h (ContentBlocks m) = (parts, h')"
      by (cases "translateContentBlocks h (ContentBlocks m)")
    let ?c = "\<lparr>Role = (if msg_Role m = ''assistant'' then ''model'' else msg_Role m), Parts = parts\<rparr>"
    show ?thesis
      using False t Cons.IH[of h' "acc @ [?c]"] Cons.IH[of h' "[?c]"]
      by (simp add: Let_def)
  qed
qed

lemma tm_loop_append:
  "translateMessages_loop all h [] (xs @ ys) =
     (fst (translateMessages_loop all h [] xs)
        @ fst (translateMessages_loop all (snd (translateMessages_loop all h [] xs)) [] ys),
      snd (translateMessages_loop all (snd (translateMessages_loop all h [] xs)) [] ys))"
proof (induction xs arbitrary: h)
  case Nil
  then show ?case by simp
next
  case (Cons m xs)
  show ?case
  proof (cases "hasToolResults (ContentBlocks m)")
    case True
    then show ?thesis
      using Cons.IH[of h]
        tm_loop_acc[of all h "functionResponses all [] (ContentBlocks m)" "xs @ ys"]
        tm_loop_acc[of all h "functionResponses all [] (ContentBlocks m)" "xs"]
      by simp
  next
    case False
    obtain parts h' where t: "translateContentBlocks h (ContentBlocks m) = (parts, h')"
      by (cases "translateContentBlocks h (ContentBlocks m)")
    let ?c = "\<lparr>Role = (if msg_Role m = ''assistant'' then ''model'' else msg_Role m), Parts = parts\<rparr>"
    show ?thesis
      using False t Cons.IH[of h'] tm_loop_acc[of all h' "[?c]" "xs @ ys"]
        tm_loop_acc[of all h' "[?c]" "xs"]
      by (simp add: Let_def)
  qed
qed

lemma tm_loop_tool_result_message:
  "hasToolResults (ContentBlocks msg) \<Longrightarrow>
     translateMessages_loop all h [] (msg # rest) =
       (map (functionResponseContent all) (toolResultsOf (ContentBlocks msg))
          @ fst (translateMessages_loop all h [] rest),
        snd (translateMessages_loop all h [] rest))"
  using tm_loop_acc[of all h "functionResponses all [] (ContentBlocks msg)" rest]
  by (simp add: functionResponses_map)

text \<open>
  C9. A message with at least one tool-result block yields, in place, exactly one content of
  role \<open>function\<close> for each of its tool-result blocks, in block order, each naming the
  tool by \<open>getToolNameFromID\<close> over the whole conversation; nothing is emitted for its
  other blocks, and the store is as the messages before it left it.
\<close>

theorem tool_result_message_contents:
  "ToolResultBlock tid0 content0 \<in> set (ContentBlocks msg) \<longrightarrow>
     translateMessages h (pre @ msg # post) =
       (fst (translateMessages_loop (pre @ msg # post) h [] pre)
          @ map (functionResponseContent (pre @ msg # post)) (toolResultsOf (ContentBlocks msg))
          @ fst (translateMessages_loop (pre @ msg # post)
                   (snd (translateMessages_loop (pre @ msg # post) h [] pre)) [] post),
        snd (translateMessages_loop (pre @ msg # post)
               (snd (translateMessages_loop (pre @ msg # post) h [] pre)) [] post))"
proof
  assume "ToolResultBlock tid0 content0 \<in> set (ContentBlocks msg)"
  then have "hasToolResults (ContentBlocks msg)"
    by (auto simp: hasToolResults_iff)
  then show "translateMessages h (pre @ msg # post) =
       (fst (translateMessages_loop (pre @ msg # post) h [] pre)
          @ map (functionResponseContent (pre @ msg # post)) (toolResultsOf (ContentBlocks msg))
          @ fst (translateMessages_loop (pre @ msg # post)
                   (snd (translateMessages_loop (pre @ msg # post) h [] pre)) [] post),
        snd (translateMessages_loop (pre @ msg # post)
               (snd (translateMessages_loop (pre @ msg # post) h [] pre)) [] post))"
    unfolding translateMessages_def
    by (simp only: tm_loop_append[of _ h pre "msg # post"] tm_loop_tool_result_message fst_conv snd_conv)
qed


theorem tool_result_message_contents_witness:
  "ToolResultBlock ''a'' [TextBlock ''sunny'']
     \<in> set (ContentBlocks \<lparr>msg_Role = ''user'',
                             msg_Content = [TextBlock ''note'',
                                            ToolResultBlock ''a'' [TextBlock ''sunny''],
                                            ToolResultBlock ''b'' []]\<rparr>)
   \<and> translateMessages (\<lambda>a. Map.empty)
        ([\<lparr>msg_Role = ''assistant'',
           msg_Content = [ToolUseBlock ''a'' ''get_weather'' None]\<rparr>]
         @ \<lparr>msg_Role = ''user'',
             msg_Content = [TextBlock ''note'',
                            ToolResultBlock ''a'' [TextBlock ''sunny''],
                            ToolResultBlock ''b'' []]\<rparr> # [])
     = ([\<lparr>Role = ''model'',
           Parts = [\<lparr>Text = [], InlineData = None, FileData = None,
                     FunctionCall = Some \<lparr>fc_Name = ''get_weather'', fc_Args = None\<rparr>,
                     FunctionResponse = None, ThoughtSignature = []\<rparr>]\<rparr>,
         \<lparr>Role = ''function'',
           Parts = [\<lparr>Text = [], InlineData = None, FileData = None, FunctionCall = None,
                     FunctionResponse =
                       Some \<lparr>fr_Name = ''get_weather'',
                             fr_Response = [''result'' \<mapsto> (AString ''sunny'' :: unit any)]\<rparr>,
                     ThoughtSignature = []\<rparr>]\<rparr>,
         \<lparr>Role = ''function'',
           Parts = [\<lparr>Text = [], InlineData = None, FileData = None, FunctionCall = None,
                     FunctionResponse = Some \<lparr>fr_Name = ''b'', fr_Response = Map.empty\<rparr>,
                     ThoughtSignature = []\<rparr>]\<rparr>],
        \<lambda>a. Map.empty)"
  using tool_result_message_contents[where
      ?tid0.0 = "''a''" and ?content0.0 = "[TextBlock ''sunny'']"
      and msg = "\<lparr>msg_Role = ''user'',
                  msg_Content = [TextBlock ''note'',
                                 ToolResultBlock ''a'' [TextBlock ''sunny''],
                                 ToolResultBlock ''b'' []]\<rparr>"
      and h = "\<lambda>a. (Map.empty :: string \<Rightarrow> unit any option)"
      and pre = "[\<lparr>msg_Role = ''assistant'',
                   msg_Content = [ToolUseBlock ''a'' ''get_weather'' None]\<rparr>]"
      and post = "[]"]
  by (simp add: ContentBlocks_def translateContentBlocks_def emptyPart_def
        functionResponseContent_def getToolNameFromID_def toolResultToMap_def)

section \<open>The name a tool result refers to\<close>

lemma toolResultsOf_mem:
  "ToolResultBlock t content \<in> set blocks \<Longrightarrow> (t, content) \<in> set (toolResultsOf blocks)"
  by (induction blocks rule: toolResultsOf.induct) auto

lemma tool_result_content_emitted:
  assumes "ToolResultBlock t content \<in> set (ContentBlocks r)"
  shows "functionResponseContent (before @ r # post) (t, content)
           \<in> set (fst (translateMessages h (before @ r # post)))"
proof -
  from assms have "hasToolResults (ContentBlocks r)"
    by (auto simp: hasToolResults_iff)
  then have "fst (translateMessages h (before @ r # post)) =
       fst (translateMessages_loop (before @ r # post) h [] before)
       @ map (functionResponseContent (before @ r # post)) (toolResultsOf (ContentBlocks r))
       @ fst (translateMessages_loop (before @ r # post)
                (snd (translateMessages_loop (before @ r # post) h [] before)) [] post)"
    unfolding translateMessages_def
    by (simp only: tm_loop_append[of _ h before "r # post"] tm_loop_tool_result_message
          fst_conv snd_conv)
  with toolResultsOf_mem[OF assms] show ?thesis by simp
qed

text \<open>
  C1, as the code has it. The lookup reads assistant messages only. When no assistant
  message holds a tool-use block with the id \<open>t\<close>, it returns \<open>t\<close>. For a tool result
  with the id \<open>t\<close> in a message \<open>r\<close>: when \<open>m\<close> is the nearest assistant message before
  \<open>r\<close> that holds a tool-use block with the id \<open>t\<close>, \<open>m\<close> holds one such block only, and
  no assistant message from \<open>r\<close> on holds one, the lookup returns that block's name, and
  the translated conversation has the function response of that name for the result. The
  example of the spec is the case where \<open>m\<close> is message 1 and \<open>r\<close> is message 3.
\<close>

theorem getToolNameFromID_assistant_lookup:
  "((\<forall>m \<in> set messages.
       msg_Role m = ''assistant'' \<longrightarrow> \<not> containsToolUse t (ContentBlocks m))
      \<longrightarrow> getToolNameFromID t messages = t)
   \<and> (ToolResultBlock t content \<in> set (ContentBlocks r)
        \<and> msg_Role m = ''assistant''
        \<and> ContentBlocks m = bs1 @ ToolUseBlock t name inp # bs2
        \<and> \<not> containsToolUse t bs1 \<and> \<not> containsToolUse t bs2
        \<and> (\<forall>m' \<in> set (mid @ r # post).
              msg_Role m' = ''assistant'' \<longrightarrow> \<not> containsToolUse t (ContentBlocks m'))
      \<longrightarrow> getToolNameFromID t (pre @ m # mid @ r # post) = name
          \<and> \<lparr>Role = ''function'',
              Parts = [\<lparr>Text = [], InlineData = None, FileData = None, FunctionCall = None,
                        FunctionResponse = Some \<lparr>fr_Name = name,
                                                 fr_Response = toolResultToMap content\<rparr>,
                        ThoughtSignature = []\<rparr>]\<rparr>
              \<in> set (fst (translateMessages h (pre @ m # mid @ r # post))))"
proof (intro conjI impI)
  assume "\<forall>m \<in> set messages.
            msg_Role m = ''assistant'' \<longrightarrow> \<not> containsToolUse t (ContentBlocks m)"
  then show "getToolNameFromID t messages = t"
    by (rule getToolNameFromID_absent)
next
  assume a: "ToolResultBlock t content \<in> set (ContentBlocks r)
        \<and> msg_Role m = ''assistant''
        \<and> ContentBlocks m = bs1 @ ToolUseBlock t name inp # bs2
        \<and> \<not> containsToolUse t bs1 \<and> \<not> containsToolUse t bs2
        \<and> (\<forall>m' \<in> set (mid @ r # post).
              msg_Role m' = ''assistant'' \<longrightarrow> \<not> containsToolUse t (ContentBlocks m'))"
  then have n: "getToolNameFromID t (pre @ m # (mid @ r # post)) = name"
    by (intro getToolNameFromID_found[of m bs1 t name inp bs2]) simp_all
  then show "getToolNameFromID t (pre @ m # mid @ r # post) = name" .
  from a have "functionResponseContent ((pre @ m # mid) @ r # post) (t, content)
           \<in> set (fst (translateMessages h ((pre @ m # mid) @ r # post)))"
    by (intro tool_result_content_emitted) simp
  with n show "\<lparr>Role = ''function'',
              Parts = [\<lparr>Text = [], InlineData = None, FileData = None, FunctionCall = None,
                        FunctionResponse = Some \<lparr>fr_Name = name,
                                                 fr_Response = toolResultToMap content\<rparr>,
                        ThoughtSignature = []\<rparr>]\<rparr>
              \<in> set (fst (translateMessages h (pre @ m # mid @ r # post)))"
    by (simp add: functionResponseContent_def)
qed

theorem getToolNameFromID_assistant_lookup_witness:
  "\<not> containsToolUse ''a''
       (ContentBlocks \<lparr>msg_Role = ''assistant'', msg_Content = [TextBlock ''hi'']\<rparr>)
   \<and> getToolNameFromID ''a'' [\<lparr>msg_Role = ''assistant'', msg_Content = [TextBlock ''hi'']\<rparr>] = ''a''
   \<and> ToolResultBlock ''a'' [TextBlock ''sunny'']
       \<in> set (ContentBlocks \<lparr>msg_Role = ''user'',
                              msg_Content = [ToolResultBlock ''a'' [TextBlock ''sunny'']]\<rparr>)
   \<and> ContentBlocks \<lparr>msg_Role = ''assistant'',
                     msg_Content = [ToolUseBlock ''a'' ''get_weather'' None]\<rparr>
        = [] @ ToolUseBlock ''a'' ''get_weather'' None # []
   \<and> \<not> containsToolUse ''a''
         (ContentBlocks \<lparr>msg_Role = ''user'', msg_Content = [TextBlock ''and?'']\<rparr>)
   \<and> \<not> containsToolUse ''a''
         (ContentBlocks \<lparr>msg_Role = ''user'',
                         msg_Content = [ToolResultBlock ''a'' [TextBlock ''sunny'']]\<rparr>)
   \<and> getToolNameFromID ''a''
        ([] @ \<lparr>msg_Role = ''assistant'',
                msg_Content = [ToolUseBlock ''a'' ''get_weather'' None]\<rparr>
            # [\<lparr>msg_Role = ''user'', msg_Content = [TextBlock ''and?'']\<rparr>]
            @ \<lparr>msg_Role = ''user'',
                msg_Content = [ToolResultBlock ''a'' [TextBlock ''sunny'']]\<rparr> # [])
        = ''get_weather''
   \<and> \<lparr>Role = ''function'',
       Parts = [\<lparr>Text = [], InlineData = None, FileData = None, FunctionCall = None,
                 FunctionResponse =
                   Some \<lparr>fr_Name = ''get_weather'',
                         fr_Response = toolResultToMap [TextBlock ''sunny'']\<rparr>,
                 ThoughtSignature = []\<rparr>]\<rparr>
       \<in> set (fst (translateMessages (\<lambda>a. (Map.empty :: string \<Rightarrow> unit any option))
                 ([] @ \<lparr>msg_Role = ''assistant'',
                         msg_Content = [ToolUseBlock ''a'' ''get_weather'' None]\<rparr>
                     # [\<lparr>msg_Role = ''user'', msg_Content = [TextBlock ''and?'']\<rparr>]
                     @ \<lparr>msg_Role = ''user'',
                         msg_Content = [ToolResultBlock ''a'' [TextBlock ''sunny'']]\<rparr> # [])))"
  using getToolNameFromID_assistant_lookup[where
      messages = "[\<lparr>msg_Role = ''assistant'', msg_Content = [TextBlock ''hi'']\<rparr>]"
      and t = "''a''" and content = "[TextBlock ''sunny'']"
      and r = "\<lparr>msg_Role = ''user'',
                msg_Content = [ToolResultBlock ''a'' [TextBlock ''sunny'']]\<rparr>"
      and m = "\<lparr>msg_Role = ''assistant'',
                msg_Content = [ToolUseBlock ''a'' ''get_weather'' None]\<rparr>"
      and ?bs1.0 = "[]" and name = "''get_weather''" and inp = None and ?bs2.0 = "[]"
      and pre = "[]" and mid = "[\<lparr>msg_Role = ''user'', msg_Content = [TextBlock ''and?'']\<rparr>]"
      and post = "[]" and h = "\<lambda>a. (Map.empty :: string \<Rightarrow> unit any option)"]
  by (simp add: ContentBlocks_def)

text \<open>
  The claim as stated fails where the tool-use block sits in a message whose role is not
  \<open>assistant\<close>: message 1 holds the tool use \<open>a\<close> named \<open>get_weather\<close>, message 3 the
  result for \<open>a\<close>, and the lookup returns the id.
\<close>

theorem getToolNameFromID_any_role_counterexample:
  "getToolNameFromID ''a''
     [\<lparr>msg_Role = ''user'', msg_Content = [ToolUseBlock ''a'' ''get_weather'' None]\<rparr>,
      \<lparr>msg_Role = ''assistant'', msg_Content = [TextBlock ''ok'']\<rparr>,
      \<lparr>msg_Role = ''user'', msg_Content = [ToolResultBlock ''a'' [TextBlock ''sunny'']]\<rparr>]
   = ''a''"
  by (simp add: getToolNameFromID_def ContentBlocks_def)

text \<open>
  Where a later assistant message uses the id again, the lookup, which starts at the end of
  the conversation, takes the later name. The comment on the function speaks of previous
  messages; the theorem of C1 says nothing about this case.
\<close>

lemma id_reused_after_result_example:
  "getToolNameFromID ''a''
     [\<lparr>msg_Role = ''assistant'', msg_Content = [ToolUseBlock ''a'' ''get_weather'' None]\<rparr>,
      \<lparr>msg_Role = ''user'', msg_Content = [TextBlock ''and?'']\<rparr>,
      \<lparr>msg_Role = ''user'', msg_Content = [ToolResultBlock ''a'' [TextBlock ''sunny'']]\<rparr>,
      \<lparr>msg_Role = ''assistant'', msg_Content = [ToolUseBlock ''a'' ''get_time'' None]\<rparr>]
   = ''get_time''"
  by (simp add: getToolNameFromID_def ContentBlocks_def)

section \<open>Tools\<close>

lemma gemini_loop_map_filter:
  "gemini_translateTools_loop marshal funcDecls result tools =
     (funcDecls @ map (functionDecl marshal) (filter isFunctionTool tools),
      result @ map nativeEntry (filter isNativeTool tools))"
proof (induction tools arbitrary: funcDecls result)
  case Nil
  then show ?case by simp
next
  case (Cons t tools)
  show ?case
  proof (cases "tool_Type t")
    case ToolTypeWebSearch
    then show ?thesis
      by (simp add: Cons.IH isFunctionTool_def isNativeTool_def nativeEntry_def emptyTool_def
               split: ToolConfig.splits option.splits)
  qed (simp_all add: Cons.IH isFunctionTool_def isNativeTool_def nativeEntry_def
                     functionDecl_def emptyTool_def)
qed

lemma gemini_tools_eq:
  "gemini_translateTools marshal tools =
     map nativeEntry (filter isNativeTool tools)
     @ (if filter isFunctionTool tools = [] then []
        else [\<lparr>FunctionDeclarations = map (functionDecl marshal) (filter isFunctionTool tools),
               GoogleSearch = None, CodeExecution = None\<rparr>])"
  by (simp add: gemini_translateTools_def gemini_loop_map_filter emptyTool_def)

lemma filter_supported_function:
  "filter isFunctionTool (filter (\<lambda>t. \<not> geminiUnsupported t) tools) = filter isFunctionTool tools"
  by (induction tools) (auto simp: isFunctionTool_def geminiUnsupported_def)

lemma filter_supported_native:
  "filter isNativeTool (filter (\<lambda>t. \<not> geminiUnsupported t) tools) = filter isNativeTool tools"
  by (induction tools) (auto simp: isNativeTool_def geminiUnsupported_def)

lemma gemini_drop_unsupported:
  "gemini_translateTools marshal (filter (\<lambda>t. \<not> geminiUnsupported t) tools) =
     gemini_translateTools marshal tools"
  by (simp only: gemini_tools_eq filter_supported_function filter_supported_native)

lemma gemini_function_represented:
  assumes "t \<in> set tools" "tool_Type t = ToolTypeFunction"
  shows "\<exists>g \<in> set (gemini_translateTools marshal tools).
           functionDecl marshal t \<in> set (FunctionDeclarations g)"
proof -
  from assms have m: "t \<in> set (filter isFunctionTool tools)"
    by (simp add: isFunctionTool_def)
  then have ne: "filter isFunctionTool tools \<noteq> []"
    by (metis empty_iff list.set(1))
  let ?g = "\<lparr>FunctionDeclarations = map (functionDecl marshal) (filter isFunctionTool tools),
               GoogleSearch = None, CodeExecution = None\<rparr>"
  have "?g \<in> set (gemini_translateTools marshal tools)"
    using ne by (simp add: gemini_tools_eq)
  moreover have "functionDecl marshal t \<in> set (FunctionDeclarations ?g)"
    using m by simp
  ultimately show ?thesis by blast
qed

lemma gemini_length:
  "length (gemini_translateTools marshal tools) \<le>
     length (filter (\<lambda>t. \<not> geminiUnsupported t) tools)"
proof -
  have "length (filter isNativeTool tools) + length (filter isFunctionTool tools)
          \<le> length (filter (\<lambda>t. \<not> geminiUnsupported t) tools)"
    by (induction tools) (auto simp: isNativeTool_def isFunctionTool_def geminiUnsupported_def)
  moreover have "filter isFunctionTool tools \<noteq> [] \<Longrightarrow> 1 \<le> length (filter isFunctionTool tools)"
    by (cases "filter isFunctionTool tools") simp_all
  ultimately show ?thesis
    by (auto simp: gemini_tools_eq)
qed

lemma oai_loop_map_filter:
  "oai_translateTools_loop marshal result tools =
     result @ List.map_filter (oai_translateTool marshal) tools"
  by (induction tools arbitrary: result) (simp_all add: List.map_filter_simps split: option.splits)

lemma oai_text_editor_none:
  "tool_Type t = ToolTypeTextEditor \<Longrightarrow> oai_translateTool marshal t = None"
  by (simp add: oai_translateTool_def)

lemma oai_drop_text_editor:
  "oai_translateTools marshal (filter (\<lambda>t. tool_Type t \<noteq> ToolTypeTextEditor) tools) =
     oai_translateTools marshal tools"
  by (induction tools)
     (auto simp: oai_translateTools_def oai_loop_map_filter List.map_filter_simps
        oai_text_editor_none split: option.splits)

lemma oai_function_entry:
  "tool_Type t = ToolTypeFunction \<Longrightarrow>
     \<exists>r. oai_translateTool marshal t = Some r \<and> rt_Type r = ''function''
          \<and> rt_Name r = tool_Name t \<and> rt_Description r = tool_Description t
          \<and> rt_Parameters r = (case tool_InputSchema t of None \<Rightarrow> [] | Some sch \<Rightarrow> marshal (Some sch))"
  by (simp add: oai_translateTool_def emptyResponsesTool_def Let_def split: option.splits)

lemma oai_function_represented:
  assumes "t \<in> set tools" "tool_Type t = ToolTypeFunction"
  shows "\<exists>r \<in> set (oai_translateTools marshal tools).
           rt_Type r = ''function'' \<and> rt_Name r = tool_Name t
           \<and> rt_Description r = tool_Description t
           \<and> rt_Parameters r = (case tool_InputSchema t of None \<Rightarrow> [] | Some sch \<Rightarrow> marshal (Some sch))"
proof -
  from oai_function_entry[OF assms(2), of marshal] obtain r where
    r: "oai_translateTool marshal t = Some r" "rt_Type r = ''function''"
       "rt_Name r = tool_Name t" "rt_Description r = tool_Description t"
       "rt_Parameters r = (case tool_InputSchema t of None \<Rightarrow> [] | Some sch \<Rightarrow> marshal (Some sch))"
    by blast
  have "r \<in> set (oai_translateTools marshal tools)"
    using assms(1) r(1)
    by (force simp: oai_translateTools_def oai_loop_map_filter List.map_filter_def)
  with r show ?thesis by blast
qed

lemma oai_length:
  "length (oai_translateTools marshal tools) \<le>
     length (filter (\<lambda>t. tool_Type t \<noteq> ToolTypeTextEditor) tools)"
  by (induction tools)
     (auto simp: oai_translateTools_def oai_loop_map_filter List.map_filter_simps
        oai_text_editor_none split: option.splits)

text \<open>
  C5. The Gemini tool list is one entry for each web search and code execution tool, in
  input order, followed, when there is a function tool, by exactly one entry whose
  declaration list has one declaration for each function tool, in input order, with the
  tool's name, description and marshalled input schema.
\<close>

theorem gemini_tools_batched:
  "gemini_translateTools marshal tools =
     map nativeEntry (filter isNativeTool tools)
     @ (if filter isFunctionTool tools = [] then []
        else [\<lparr>FunctionDeclarations = map (functionDecl marshal) (filter isFunctionTool tools),
               GoogleSearch = None, CodeExecution = None\<rparr>])"
  by (simp add: gemini_translateTools_def gemini_loop_map_filter emptyTool_def)

text \<open>
  C4. Translating tools is total. The Gemini output is the same with the file search,
  computer use and text editor tools removed from the input, has no more entries than the
  remaining tools, and holds the declaration of every function tool. The OpenAI Responses
  output is the same with the text editor tools removed, has no more entries than the
  remaining tools, and holds for every function tool an entry of type \<open>function\<close> with the
  tool's name, description and marshalled schema.
\<close>

theorem unsupported_tools_omitted:
  "gemini_translateTools marshal (filter (\<lambda>t. \<not> geminiUnsupported t) tools) =
     gemini_translateTools marshal tools
   \<and> length (gemini_translateTools marshal tools)
       \<le> length (filter (\<lambda>t. \<not> geminiUnsupported t) tools)
   \<and> (\<forall>t \<in> set tools. tool_Type t = ToolTypeFunction \<longrightarrow>
         (\<exists>g \<in> set (gemini_translateTools marshal tools).
            functionDecl marshal t \<in> set (FunctionDeclarations g)))
   \<and> oai_translateTools marshal (filter (\<lambda>t. tool_Type t \<noteq> ToolTypeTextEditor) tools) =
       oai_translateTools marshal tools
   \<and> length (oai_translateTools marshal tools)
       \<le> length (filter (\<lambda>t. tool_Type t \<noteq> ToolTypeTextEditor) tools)
   \<and> (\<forall>t \<in> set tools. tool_Type t = ToolTypeFunction \<longrightarrow>
         (\<exists>r \<in> set (oai_translateTools marshal tools).
            rt_Type r = ''function'' \<and> rt_Name r = tool_Name t
            \<and> rt_Description r = tool_Description t
            \<and> rt_Parameters r =
                (case tool_InputSchema t of None \<Rightarrow> [] | Some sch \<Rightarrow> marshal (Some sch))))"
  using gemini_drop_unsupported[of marshal tools] gemini_length[of marshal tools]
    gemini_function_represented[of _ tools marshal]
    oai_drop_text_editor[of marshal tools] oai_length[of marshal tools]
    oai_function_represented[of _ tools marshal]
  by blast

theorem unsupported_tools_omitted_witness:
  "\<lparr>tool_Type = ToolTypeFunction, tool_Name = ''get_weather'', tool_Description = ''Weather'',
     tool_InputSchema = Some ''{}'', tool_Config = (ConfigNil :: unit ToolConfig)\<rparr>
     \<in> set [\<lparr>tool_Type = ToolTypeFunction, tool_Name = ''get_weather'',
               tool_Description = ''Weather'', tool_InputSchema = Some ''{}'',
               tool_Config = ConfigNil\<rparr>,
             \<lparr>tool_Type = ToolTypeTextEditor, tool_Name = ''edit'', tool_Description = [],
               tool_InputSchema = None, tool_Config = ConfigNil\<rparr>,
             \<lparr>tool_Type = ToolTypeFileSearch, tool_Name = ''files'', tool_Description = [],
               tool_InputSchema = None, tool_Config = ConfigNil\<rparr>]
   \<and> gemini_translateTools (\<lambda>s. case s of None \<Rightarrow> ''null'' | Some x \<Rightarrow> x)
        [\<lparr>tool_Type = ToolTypeFunction, tool_Name = ''get_weather'',
          tool_Description = ''Weather'', tool_InputSchema = Some ''{}'',
          tool_Config = (ConfigNil :: unit ToolConfig)\<rparr>,
         \<lparr>tool_Type = ToolTypeTextEditor, tool_Name = ''edit'', tool_Description = [],
          tool_InputSchema = None, tool_Config = ConfigNil\<rparr>,
         \<lparr>tool_Type = ToolTypeFileSearch, tool_Name = ''files'', tool_Description = [],
          tool_InputSchema = None, tool_Config = ConfigNil\<rparr>]
      = [\<lparr>FunctionDeclarations =
            [\<lparr>decl_Name = ''get_weather'', decl_Description = ''Weather'',
              decl_Parameters = ''{}''\<rparr>],
          GoogleSearch = None, CodeExecution = None\<rparr>]
   \<and> map rt_Type
        (oai_translateTools (\<lambda>s. case s of None \<Rightarrow> ''null'' | Some x \<Rightarrow> x)
          [\<lparr>tool_Type = ToolTypeFunction, tool_Name = ''get_weather'',
            tool_Description = ''Weather'', tool_InputSchema = Some ''{}'',
            tool_Config = (ConfigNil :: unit ToolConfig)\<rparr>,
           \<lparr>tool_Type = ToolTypeTextEditor, tool_Name = ''edit'', tool_Description = [],
            tool_InputSchema = None, tool_Config = ConfigNil\<rparr>,
           \<lparr>tool_Type = ToolTypeFileSearch, tool_Name = ''files'', tool_Description = [],
            tool_InputSchema = None, tool_Config = ConfigNil\<rparr>])
      = [''function'', ''file_search'']
   \<and> (\<exists>r \<in> set (oai_translateTools (\<lambda>s. case s of None \<Rightarrow> ''null'' | Some x \<Rightarrow> x)
          [\<lparr>tool_Type = ToolTypeFunction, tool_Name = ''get_weather'',
            tool_Description = ''Weather'', tool_InputSchema = Some ''{}'',
            tool_Config = (ConfigNil :: unit ToolConfig)\<rparr>,
           \<lparr>tool_Type = ToolTypeTextEditor, tool_Name = ''edit'', tool_Description = [],
            tool_InputSchema = None, tool_Config = ConfigNil\<rparr>,
           \<lparr>tool_Type = ToolTypeFileSearch, tool_Name = ''files'', tool_Description = [],
            tool_InputSchema = None, tool_Config = ConfigNil\<rparr>]).
          rt_Type r = ''function'' \<and> rt_Name r = ''get_weather''
          \<and> rt_Description r = ''Weather'' \<and> rt_Parameters r = ''{}'')"
  using unsupported_tools_omitted[where
      marshal = "\<lambda>s. case s of None \<Rightarrow> ''null'' | Some x \<Rightarrow> x"
      and tools = "[\<lparr>tool_Type = ToolTypeFunction, tool_Name = ''get_weather'',
               tool_Description = ''Weather'', tool_InputSchema = Some ''{}'',
               tool_Config = (ConfigNil :: unit ToolConfig)\<rparr>,
             \<lparr>tool_Type = ToolTypeTextEditor, tool_Name = ''edit'', tool_Description = [],
               tool_InputSchema = None, tool_Config = ConfigNil\<rparr>,
             \<lparr>tool_Type = ToolTypeFileSearch, tool_Name = ''files'', tool_Description = [],
               tool_InputSchema = None, tool_Config = ConfigNil\<rparr>]"]
  by (simp add: gemini_translateTools_def oai_translateTools_def oai_translateTool_def
        emptyTool_def emptyResponsesTool_def geminiUnsupported_def functionDecl_def)

section \<open>Tool choice\<close>

text \<open>
  C2. The Gemini adapter maps \<open>auto\<close> to mode \<open>AUTO\<close>, \<open>none\<close> to \<open>NONE\<close>, \<open>any\<close> to \<open>ANY\<close>,
  each with no allowed names, and \<open>tool\<close> with a name to \<open>ANY\<close> with exactly that name
  allowed. The OpenAI Responses adapter maps \<open>auto\<close> to \<open>auto\<close>, \<open>none\<close> to \<open>none\<close>, \<open>any\<close>
  to \<open>required\<close>, and \<open>tool\<close> with a name to the object of type \<open>function\<close> with that name.
\<close>

theorem tool_choice_translation:
  "gemini_translateToolChoice \<lparr>tc_Type = ''auto'', tc_Name = n\<rparr> =
     \<lparr>FunctionCallingConfig = Some \<lparr>Mode = ''AUTO'', AllowedFunctionNames = []\<rparr>\<rparr>
   \<and> gemini_translateToolChoice \<lparr>tc_Type = ''none'', tc_Name = n\<rparr> =
     \<lparr>FunctionCallingConfig = Some \<lparr>Mode = ''NONE'', AllowedFunctionNames = []\<rparr>\<rparr>
   \<and> gemini_translateToolChoice \<lparr>tc_Type = ''any'', tc_Name = n\<rparr> =
     \<lparr>FunctionCallingConfig = Some \<lparr>Mode = ''ANY'', AllowedFunctionNames = []\<rparr>\<rparr>
   \<and> gemini_translateToolChoice \<lparr>tc_Type = ''tool'', tc_Name = n\<rparr> =
     \<lparr>FunctionCallingConfig = Some \<lparr>Mode = ''ANY'', AllowedFunctionNames = [n]\<rparr>\<rparr>
   \<and> (oai_translateToolChoice (Some \<lparr>tc_Type = ''auto'', tc_Name = n\<rparr>) :: 'f any) = AString ''auto''
   \<and> (oai_translateToolChoice (Some \<lparr>tc_Type = ''none'', tc_Name = n\<rparr>) :: 'f any) = AString ''none''
   \<and> (oai_translateToolChoice (Some \<lparr>tc_Type = ''any'', tc_Name = n\<rparr>) :: 'f any) = AString ''required''
   \<and> (oai_translateToolChoice (Some \<lparr>tc_Type = ''tool'', tc_Name = n\<rparr>) :: 'f any) =
       AMap (Map.empty(''type'' \<mapsto> AString ''function'', ''name'' \<mapsto> AString n))"
  by (simp add: gemini_translateToolChoice_def oai_translateToolChoice_def)

section \<open>Generation config and extensions\<close>

lemma bgc_ext:
  "e ''gemini'' = req_Extensions req ''gemini'' \<Longrightarrow>
     buildGenerationConfig marshal toInt (req\<lparr>req_Extensions := e\<rparr>) =
       buildGenerationConfig marshal toInt req"
  by (simp add: buildGenerationConfig_def Let_def split: option.splits)

lemma br_ext:
  "e ''gemini'' = req_Extensions req ''gemini'' \<Longrightarrow>
     buildRequest marshal toInt h (req\<lparr>req_Extensions := e\<rparr>) =
       buildRequest marshal toInt h req"
  by (simp add: buildRequest_def bgc_ext)

lemma bgc_rest:
  "(buildGenerationConfig marshal toInt (req\<lparr>req_Extensions := e\<rparr>))\<lparr>ThinkingConfig := None\<rparr> =
   (buildGenerationConfig marshal toInt req)\<lparr>ThinkingConfig := None\<rparr>"
  by (simp add: buildGenerationConfig_def Let_def split: option.splits)

lemma bgc_thinking:
  "ThinkingConfig (buildGenerationConfig marshal toInt req) =
     thinkingConfigOf toInt (req_Extensions req ''gemini'')"
  by (simp add: buildGenerationConfig_def Let_def)

lemma thinking_absent:
  "\<not> (\<exists>g t. ext = Some (AMap g) \<and> g ''thinking'' = Some (AMap t)) \<Longrightarrow>
     thinkingConfigOf toInt ext = None"
  by (auto simp: thinkingConfigOf_def split: option.splits any.splits)

lemma thinking_present:
  "g ''thinking'' = Some (AMap t) \<Longrightarrow>
     thinkingConfigOf toInt (Some (AMap g)) =
       Some \<lparr>ThinkingBudget = (case t ''budget'' of
                                   Some (AFloat64 budget) \<Rightarrow> Some (toInt budget)
                                 | _ \<Rightarrow> None),
             ThinkingLevel = (case t ''level'' of Some (AString level) \<Rightarrow> level | _ \<Rightarrow> []),
             IncludeThoughts = (case t ''include_thoughts'' of
                                  Some (ABool include) \<Rightarrow> include
                                | _ \<Rightarrow> False)\<rparr>"
  by (simp add: thinkingConfigOf_def split: option.splits any.splits)

lemma thinking_three_keys:
  assumes "t1 ''level'' = t2 ''level''" "t1 ''budget'' = t2 ''budget''"
    "t1 ''include_thoughts'' = t2 ''include_thoughts''"
    "g1 ''thinking'' = Some (AMap t1)" "g2 ''thinking'' = Some (AMap t2)"
  shows "thinkingConfigOf toInt (Some (AMap g1)) = thinkingConfigOf toInt (Some (AMap g2))"
  using assms by (simp add: thinkingConfigOf_def)

text \<open>
  C8. Replacing the extension bag by one with the same entry under \<open>gemini\<close> changes neither
  the generation config nor the request built. No extension changes any field of the
  generation config but the thinking config; and two requests whose \<open>gemini\<close> extensions
  are maps with \<open>thinking\<close> maps that agree on \<open>level\<close>, \<open>budget\<close> and
  \<open>include_thoughts\<close> get the same thinking config. The thinking config is nil unless
  the \<open>gemini\<close> extension is a map whose \<open>thinking\<close> entry is a map, whatever else the
  extensions hold; and then it is made of that map's \<open>level\<close> when a string, \<open>budget\<close>
  when a \<open>float64\<close>, and \<open>include_thoughts\<close> when a bool, and of nothing else.
\<close>

theorem unknown_extensions_ignored:
  "(e ''gemini'' = req_Extensions req ''gemini'' \<longrightarrow>
      buildGenerationConfig marshal toInt (req\<lparr>req_Extensions := e\<rparr>) =
        buildGenerationConfig marshal toInt req
      \<and> buildRequest marshal toInt h (req\<lparr>req_Extensions := e\<rparr>) =
          buildRequest marshal toInt h req)
   \<and> (buildGenerationConfig marshal toInt (req\<lparr>req_Extensions := e\<rparr>))\<lparr>ThinkingConfig := None\<rparr> =
       (buildGenerationConfig marshal toInt req)\<lparr>ThinkingConfig := None\<rparr>
   \<and> (req_Extensions r1 ''gemini'' = Some (AMap g1) \<and> g1 ''thinking'' = Some (AMap t1)
        \<and> req_Extensions r2 ''gemini'' = Some (AMap g2) \<and> g2 ''thinking'' = Some (AMap t2)
        \<and> t1 ''level'' = t2 ''level'' \<and> t1 ''budget'' = t2 ''budget''
        \<and> t1 ''include_thoughts'' = t2 ''include_thoughts''
      \<longrightarrow> ThinkingConfig (buildGenerationConfig marshal toInt r1) =
            ThinkingConfig (buildGenerationConfig marshal toInt r2))
   \<and> (\<not> (\<exists>g t. req_Extensions r3 ''gemini'' = Some (AMap g) \<and> g ''thinking'' = Some (AMap t))
      \<longrightarrow> ThinkingConfig (buildGenerationConfig marshal toInt r3) = None)
   \<and> (req_Extensions r4 ''gemini'' = Some (AMap g4) \<and> g4 ''thinking'' = Some (AMap t4)
      \<longrightarrow> ThinkingConfig (buildGenerationConfig marshal toInt r4) =
            Some \<lparr>ThinkingBudget = (case t4 ''budget'' of
                                        Some (AFloat64 budget) \<Rightarrow> Some (toInt budget)
                                      | _ \<Rightarrow> None),
                  ThinkingLevel = (case t4 ''level'' of
                                     Some (AString level) \<Rightarrow> level
                                   | _ \<Rightarrow> []),
                  IncludeThoughts = (case t4 ''include_thoughts'' of
                                       Some (ABool include) \<Rightarrow> include
                                     | _ \<Rightarrow> False)\<rparr>)"
proof (intro conjI impI)
  assume "e ''gemini'' = req_Extensions req ''gemini''"
  then show "buildGenerationConfig marshal toInt (req\<lparr>req_Extensions := e\<rparr>) =
               buildGenerationConfig marshal toInt req"
    by (rule bgc_ext)
next
  assume "e ''gemini'' = req_Extensions req ''gemini''"
  then show "buildRequest marshal toInt h (req\<lparr>req_Extensions := e\<rparr>) =
               buildRequest marshal toInt h req"
    by (rule br_ext)
next
  show "(buildGenerationConfig marshal toInt (req\<lparr>req_Extensions := e\<rparr>))\<lparr>ThinkingConfig := None\<rparr> =
          (buildGenerationConfig marshal toInt req)\<lparr>ThinkingConfig := None\<rparr>"
    by (rule bgc_rest)
next
  assume a: "req_Extensions r1 ''gemini'' = Some (AMap g1) \<and> g1 ''thinking'' = Some (AMap t1)
        \<and> req_Extensions r2 ''gemini'' = Some (AMap g2) \<and> g2 ''thinking'' = Some (AMap t2)
        \<and> t1 ''level'' = t2 ''level'' \<and> t1 ''budget'' = t2 ''budget''
        \<and> t1 ''include_thoughts'' = t2 ''include_thoughts''"
  then have "thinkingConfigOf toInt (Some (AMap g1)) = thinkingConfigOf toInt (Some (AMap g2))"
    by (intro thinking_three_keys) simp_all
  with a show "ThinkingConfig (buildGenerationConfig marshal toInt r1) =
                 ThinkingConfig (buildGenerationConfig marshal toInt r2)"
    by (simp add: bgc_thinking)
next
  assume "\<not> (\<exists>g t. req_Extensions r3 ''gemini'' = Some (AMap g)
                  \<and> g ''thinking'' = Some (AMap t))"
  then have "thinkingConfigOf toInt (req_Extensions r3 ''gemini'') = None"
    by (rule thinking_absent)
  then show "ThinkingConfig (buildGenerationConfig marshal toInt r3) = None"
    by (simp add: bgc_thinking)
next
  assume a: "req_Extensions r4 ''gemini'' = Some (AMap g4) \<and> g4 ''thinking'' = Some (AMap t4)"
  then have "thinkingConfigOf toInt (Some (AMap g4)) =
            Some \<lparr>ThinkingBudget = (case t4 ''budget'' of
                                        Some (AFloat64 budget) \<Rightarrow> Some (toInt budget)
                                      | _ \<Rightarrow> None),
                  ThinkingLevel = (case t4 ''level'' of
                                     Some (AString level) \<Rightarrow> level
                                   | _ \<Rightarrow> []),
                  IncludeThoughts = (case t4 ''include_thoughts'' of
                                       Some (ABool include) \<Rightarrow> include
                                     | _ \<Rightarrow> False)\<rparr>"
    by (intro thinking_present) simp
  with a show "ThinkingConfig (buildGenerationConfig marshal toInt r4) =
            Some \<lparr>ThinkingBudget = (case t4 ''budget'' of
                                        Some (AFloat64 budget) \<Rightarrow> Some (toInt budget)
                                      | _ \<Rightarrow> None),
                  ThinkingLevel = (case t4 ''level'' of
                                     Some (AString level) \<Rightarrow> level
                                   | _ \<Rightarrow> []),
                  IncludeThoughts = (case t4 ''include_thoughts'' of
                                       Some (ABool include) \<Rightarrow> include
                                     | _ \<Rightarrow> False)\<rparr>"
    by (simp add: bgc_thinking)
qed

theorem unknown_extensions_ignored_witness:
  "[''gemini'' \<mapsto> AMap [''thinking'' \<mapsto> AMap [''level'' \<mapsto> AString ''high'']],
    ''openai'' \<mapsto> ABool True] ''gemini''
     = req_Extensions
         ((zeroRequest ''gemini/g'' :: (unit, unit) MessageRequest)
            \<lparr>req_Extensions :=
               [''gemini'' \<mapsto> AMap [''thinking'' \<mapsto> AMap [''level'' \<mapsto> AString ''high'']]]\<rparr>)
         ''gemini''
   \<and> buildGenerationConfig (\<lambda>s. ''{}'') (\<lambda>f. 0)
        ((zeroRequest ''gemini/g'' :: (unit, unit) MessageRequest)
           \<lparr>req_Extensions :=
              [''gemini'' \<mapsto> AMap [''thinking'' \<mapsto> AMap [''level'' \<mapsto> AString ''high'']],
               ''openai'' \<mapsto> ABool True]\<rparr>)
      = buildGenerationConfig (\<lambda>s. ''{}'') (\<lambda>f. 0)
          ((zeroRequest ''gemini/g'' :: (unit, unit) MessageRequest)
             \<lparr>req_Extensions :=
                [''gemini'' \<mapsto> AMap [''thinking'' \<mapsto> AMap [''level'' \<mapsto> AString ''high'']]]\<rparr>)
   \<and> ThinkingConfig (buildGenerationConfig (\<lambda>s. ''{}'') (\<lambda>f. 0)
        ((zeroRequest ''gemini/g'' :: (unit, unit) MessageRequest)
           \<lparr>req_Extensions :=
              [''gemini'' \<mapsto> AMap [''thinking'' \<mapsto> AMap [''level'' \<mapsto> AString ''high'']],
               ''openai'' \<mapsto> ABool True]\<rparr>))
      = Some \<lparr>ThinkingBudget = None, ThinkingLevel = ''high'', IncludeThoughts = False\<rparr>
   \<and> ThinkingConfig (buildGenerationConfig (\<lambda>s. ''{}'') (\<lambda>f. 0)
        ((zeroRequest ''gemini/g'' :: (unit, unit) MessageRequest)
           \<lparr>req_Extensions :=
              [''gemini'' \<mapsto> AMap [''thinking'' \<mapsto> AMap [''level'' \<mapsto> AString ''high'',
                                                         ''mode'' \<mapsto> AString ''x'']]]\<rparr>))
      = ThinkingConfig (buildGenerationConfig (\<lambda>s. ''{}'') (\<lambda>f. 0)
        ((zeroRequest ''other/m'' :: (unit, unit) MessageRequest)
           \<lparr>req_Extensions :=
              [''gemini'' \<mapsto> AMap [''thinking'' \<mapsto> AMap [''level'' \<mapsto> AString ''high'']]]\<rparr>))
   \<and> ThinkingConfig (buildGenerationConfig (\<lambda>s. ''{}'') (\<lambda>f. 0)
        ((zeroRequest ''gemini/g'' :: (unit, unit) MessageRequest)
           \<lparr>req_Extensions :=
              [''gemini'' \<mapsto> AMap [''debug'' \<mapsto> AMap [''level'' \<mapsto> AString ''high'']],
               ''thinking'' \<mapsto> AMap [''level'' \<mapsto> AString ''high'']]\<rparr>))
      = None
   \<and> ThinkingConfig (buildGenerationConfig (\<lambda>s. ''{}'') (\<lambda>f. 0)
        ((zeroRequest ''gemini/g'' :: (unit, unit) MessageRequest)
           \<lparr>req_Extensions :=
              [''gemini'' \<mapsto> AMap [''thinking'' \<mapsto> AMap [''level'' \<mapsto> AString ''low'',
                                                         ''budget'' \<mapsto> AInt 5,
                                                         ''include_thoughts'' \<mapsto> ABool True]]]\<rparr>))
      = Some \<lparr>ThinkingBudget = None, ThinkingLevel = ''low'', IncludeThoughts = True\<rparr>"
  using unknown_extensions_ignored[where
      e = "[''gemini'' \<mapsto> AMap [''thinking'' \<mapsto> AMap [''level'' \<mapsto> AString ''high'']],
            ''openai'' \<mapsto> ABool True]"
      and req = "(zeroRequest ''gemini/g'' :: (unit, unit) MessageRequest)
            \<lparr>req_Extensions :=
               [''gemini'' \<mapsto> AMap [''thinking'' \<mapsto> AMap [''level'' \<mapsto> AString ''high'']]]\<rparr>"
      and marshal = "\<lambda>s. ''{}''" and toInt = "\<lambda>f. 0" and h = "\<lambda>a. Map.empty"
      and ?r1.0 = "(zeroRequest ''gemini/g'' :: (unit, unit) MessageRequest)
           \<lparr>req_Extensions :=
              [''gemini'' \<mapsto> AMap [''thinking'' \<mapsto> AMap [''level'' \<mapsto> AString ''high'',
                                                         ''mode'' \<mapsto> AString ''x'']]]\<rparr>"
      and ?g1.0 = "[''thinking'' \<mapsto> AMap [''level'' \<mapsto> AString ''high'', ''mode'' \<mapsto> AString ''x'']]"
      and ?t1.0 = "[''level'' \<mapsto> AString ''high'', ''mode'' \<mapsto> AString ''x'']"
      and ?r2.0 = "(zeroRequest ''other/m'' :: (unit, unit) MessageRequest)
           \<lparr>req_Extensions :=
              [''gemini'' \<mapsto> AMap [''thinking'' \<mapsto> AMap [''level'' \<mapsto> AString ''high'']]]\<rparr>"
      and ?g2.0 = "[''thinking'' \<mapsto> AMap [''level'' \<mapsto> AString ''high'']]"
      and ?t2.0 = "[''level'' \<mapsto> AString ''high'']"
      and ?r3.0 = "(zeroRequest ''gemini/g'' :: (unit, unit) MessageRequest)
           \<lparr>req_Extensions :=
              [''gemini'' \<mapsto> AMap [''debug'' \<mapsto> AMap [''level'' \<mapsto> AString ''high'']],
               ''thinking'' \<mapsto> AMap [''level'' \<mapsto> AString ''high'']]\<rparr>"
      and ?r4.0 = "(zeroRequest ''gemini/g'' :: (unit, unit) MessageRequest)
           \<lparr>req_Extensions :=
              [''gemini'' \<mapsto> AMap [''thinking'' \<mapsto> AMap [''level'' \<mapsto> AString ''low'',
                                                         ''budget'' \<mapsto> AInt 5,
                                                         ''include_thoughts'' \<mapsto> ABool True]]]\<rparr>"
      and ?g4.0 = "[''thinking'' \<mapsto> AMap [''level'' \<mapsto> AString ''low'',
                                           ''budget'' \<mapsto> AInt 5,
                                           ''include_thoughts'' \<mapsto> ABool True]]"
      and ?t4.0 = "[''level'' \<mapsto> AString ''low'', ''budget'' \<mapsto> AInt 5,
                    ''include_thoughts'' \<mapsto> ABool True]"]
  by (simp add: zeroRequest_def buildGenerationConfig_def thinkingConfigOf_def)

end
